theory Spec2Isabelle
  imports Main "HOL-Library.AList"
begin

section \<open>Texts\<close>

text \<open>
  A Python \<open>str\<close> is modelled as a \<open>string\<close>: the character numbered \<open>n\<close> stands for
  the code point \<open>n\<close>, so the model covers the texts whose code points are below 256.
  The character classes below are the ones Python 3 uses on such code points
  (\<open>str.isspace\<close>, and \<open>\<backslash>s\<close>, \<open>\<backslash>w\<close>, \<open>\<backslash>d\<close> of the \<open>re\<close> module on \<open>str\<close> patterns).
\<close>

definition is_space :: "char \<Rightarrow> bool" where
  "is_space c =
     (let n = (of_char c :: nat)
      in (9 \<le> n \<and> n \<le> 13) \<or> (28 \<le> n \<and> n \<le> 32) \<or> n = 133 \<or> n = 160)"

definition is_digit :: "char \<Rightarrow> bool" where
  "is_digit c = (let n = (of_char c :: nat) in 48 \<le> n \<and> n \<le> 57)"

definition is_word :: "char \<Rightarrow> bool" where
  "is_word c =
     (let n = (of_char c :: nat)
      in (48 \<le> n \<and> n \<le> 57) \<or> (65 \<le> n \<and> n \<le> 90) \<or> n = 95 \<or> (97 \<le> n \<and> n \<le> 122)
         \<or> n = 170 \<or> n = 178 \<or> n = 179 \<or> n = 181 \<or> n = 185 \<or> n = 186
         \<or> (188 \<le> n \<and> n \<le> 190) \<or> (192 \<le> n \<and> n \<le> 214) \<or> (216 \<le> n \<and> n \<le> 246)
         \<or> 248 \<le> n)"

text \<open>\<open>str.lower\<close> on one character.\<close>

definition lower_char :: "char \<Rightarrow> char" where
  "lower_char c =
     (let n = (of_char c :: nat)
      in if (65 \<le> n \<and> n \<le> 90) \<or> (192 \<le> n \<and> n \<le> 214) \<or> (216 \<le> n \<and> n \<le> 222)
         then char_of (n + 32) else c)"

definition lower :: "string \<Rightarrow> string" where
  "lower s = map lower_char s"

text \<open>\<open>s.startswith(p)\<close> and \<open>s.endswith(p)\<close>; the pattern comes first.\<close>

fun startswith :: "string \<Rightarrow> string \<Rightarrow> bool" where
  "startswith [] s = True"
| "startswith (p # ps) [] = False"
| "startswith (p # ps) (c # cs) = (p = c \<and> startswith ps cs)"

definition endswith :: "string \<Rightarrow> string \<Rightarrow> bool" where
  "endswith p s = startswith (rev p) (rev s)"

text \<open>\<open>s.strip()\<close>: white space is removed at both ends.\<close>

definition strip :: "string \<Rightarrow> string" where
  "strip s = rev (dropWhile is_space (rev (dropWhile is_space s)))"

text \<open>\<open>s.split("\<backslash>n")\<close>: the result is never empty.\<close>

fun split_nl :: "string \<Rightarrow> string list" where
  "split_nl [] = [[]]"
| "split_nl (c # cs) =
     (if c = CHR 0x0A then [] # split_nl cs
      else (case split_nl cs of l # ls \<Rightarrow> (c # l) # ls | [] \<Rightarrow> [[c]]))"

text \<open>\<open>sep.join(xs)\<close>.\<close>

fun join :: "string \<Rightarrow> string list \<Rightarrow> string" where
  "join sep [] = []"
| "join sep [x] = x"
| "join sep (x # y # ys) = x @ sep @ join sep (y # ys)"

text \<open>\<open>line.split(":", 1)[-1]\<close>: what follows the first colon, the whole line without one.\<close>

fun after_first_colon :: "string \<Rightarrow> string" where
  "after_first_colon [] = []"
| "after_first_colon (c # cs) = (if c = CHR 0x3A then cs else
     (if CHR 0x3A \<in> set cs then after_first_colon cs else c # cs))"

text \<open>\<open>os.path.basename\<close> (POSIX): what follows the last slash.\<close>

definition basename :: "string \<Rightarrow> string" where
  "basename p = rev (takeWhile (\<lambda>c. c \<noteq> CHR 0x2F) (rev p))"

text \<open>\<open>os.path.dirname\<close> (POSIX): what precedes the last slash, without trailing slashes
  unless it consists of slashes only.\<close>

definition dirname :: "string \<Rightarrow> string" where
  "dirname p =
     (let hd_part = rev (dropWhile (\<lambda>c. c \<noteq> CHR 0x2F) (rev p));
          stripped = rev (dropWhile (\<lambda>c. c = CHR 0x2F) (rev hd_part))
      in if stripped = [] then hd_part else stripped)"

text \<open>\<open>os.path.join(a, b)\<close> (POSIX) for two components.\<close>

definition path_join :: "string \<Rightarrow> string \<Rightarrow> string" where
  "path_join a b =
     (if startswith ''/'' b then b
      else if a = [] \<or> endswith ''/'' a then a @ b
      else a @ ''/'' @ b)"

text \<open>\<open>os.path.splitext(b)[0]\<close> for a name \<open>b\<close> without a slash: the name is cut at its
  last dot, unless only dots precede that dot.\<close>

definition splitext_root :: "string \<Rightarrow> string" where
  "splitext_root b =
     (let ext_rev = takeWhile (\<lambda>c. c \<noteq> CHR 0x2E) (rev b);
          root = take (length b - length ext_rev - 1) b
      in if CHR 0x2E \<in> set b \<and> (\<exists>c \<in> set root. c \<noteq> CHR 0x2E) then root else b)"

section \<open>The file registry\<close>

text \<open>
  A Python \<open>dict\<close> keeps its keys in insertion order; it is an association list, read with
  \<open>map_of\<close> and written with \<open>AList.update\<close> (a present key keeps its place, a new one
  goes to the end).
\<close>

type_synonym 'v dict = "(string \<times> 'v) list"

definition keys :: "'v dict \<Rightarrow> string list" where
  "keys d = map fst d"

text \<open>One entry of \<open>file_index\<close>, as \<open>build_file_entry\<close> returns it.\<close>

record file_entry =
  e_path :: string
  e_content :: string
  e_class :: string
  e_imports :: "string list"
  e_calls :: "string list"
  e_last_modified :: nat
  e_checksum :: string

text \<open>Python exceptions, with the value they carry.\<close>

datatype py_error =
  FileNotFoundError string
| PermissionError string
| IsADirectoryError string
| KeyError string
| ApiError string
| AttributeError
| TypeError

section \<open>The world outside the program\<close>

text \<open>
  The file system holds, for each path of a file, its content and its modification time,
  and for each path of a directory its modification time. \<open>unwritable\<close> is the set of
  paths that \<open>open(path, "w")\<close> and \<open>shutil.copy2\<close> cannot write (permissions, a missing
  directory). \<open>tick\<close> counts the writes so far, and \<open>stdout\<close> collects the messages the
  patch applicator and the rollback print.
\<close>

datatype event =
  Processing string
| BlockWithoutFilename
| Fixed string
| UnknownFile string
| Restored string
| FailedRestore string

record world =
  disk :: "string \<rightharpoonup> (string \<times> nat)"
  dirs :: "string \<rightharpoonup> nat"
  unwritable :: "string set"
  tick :: nat
  stdout :: "event list"

text \<open>
  What the program takes from libraries and from the clock: \<open>md5\<close> is
  \<open>hashlib.md5(text.encode()).hexdigest()\<close>; \<open>timestamp n\<close> is what
  \<open>datetime.now().strftime("%Y%m%d_%H%M%S")\<close> returns when \<open>n\<close> writes have happened;
  \<open>mtime_at n\<close> is the modification time the file system gives to the write number
  \<open>n\<close>; \<open>walk d\<close> is \<open>os.walk(d)\<close> as the list of its directories with their file
  names; \<open>iter_set\<close> is the order in which Python iterates over a set of texts; \<open>cwd\<close> is
  \<open>os.getcwd()\<close>; \<open>propose\<close> is the reasoning oracle behind \<open>chat.send_message\<close>, which
  answers a prompt with a text or raises.
\<close>

text \<open>The prompt of the repair proposer is a fixed template around three texts; the oracle is
  given these three.\<close>

record prompt =
  p_extra_note :: string
  p_error_log :: string
  p_source_code :: string

record env =
  md5 :: "string \<Rightarrow> string"
  timestamp :: "nat \<Rightarrow> string"
  mtime_at :: "nat \<Rightarrow> nat"
  walk :: "string \<Rightarrow> (string \<times> string list) list"
  iter_set :: "string set \<Rightarrow> string list"
  cwd :: string
  propose :: "prompt \<Rightarrow> py_error + string"

definition print :: "event \<Rightarrow> world \<Rightarrow> world" where
  "print e w = w\<lparr>stdout := stdout w @ [e]\<rparr>"

text \<open>\<open>with open(path, "w") as f: f.write(content)\<close>.\<close>

definition write_file :: "env \<Rightarrow> world \<Rightarrow> string \<Rightarrow> string \<Rightarrow> py_error + world" where
  "write_file ev w path content =
     (if path \<in> unwritable w then Inl (PermissionError path)
      else if dirs w path \<noteq> None then Inl (IsADirectoryError path)
      else Inr (w\<lparr>disk := (disk w)(path \<mapsto> (content, mtime_at ev (tick w))),
                  tick := Suc (tick w)\<rparr>))"

text \<open>
  \<open>with open(path, "r", encoding="utf-8", errors="ignore") as f: f.read()\<close>. The file is
  read in text mode: every \<open>CR LF\<close> and every other \<open>CR\<close> of the stored text comes out
  as \<open>LF\<close>. A text is written as it is given, the line separator of the platform being
  \<open>LF\<close>.
\<close>

fun universal_newlines :: "string \<Rightarrow> string" where
  "universal_newlines [] = []"
| "universal_newlines [c] = (if c = CHR 0x0D then [CHR 0x0A] else [c])"
| "universal_newlines (c # d # cs) =
     (if c = CHR 0x0D then
        (if d = CHR 0x0A then CHR 0x0A # universal_newlines cs
         else CHR 0x0A # universal_newlines (d # cs))
      else c # universal_newlines (d # cs))"

definition read_text :: "world \<Rightarrow> string \<Rightarrow> py_error + string" where
  "read_text w path =
     (case disk w path of
        Some (stored, mtime) \<Rightarrow> Inr (universal_newlines stored)
      | None \<Rightarrow> (if dirs w path \<noteq> None then Inl (IsADirectoryError path)
               else Inl (FileNotFoundError path)))"

text \<open>\<open>create_backup\<close>: \<open>shutil.copy2\<close> copies the content and the modification time.
  The function returns the path of the copy, which no caller uses.\<close>

definition backup_path :: "string \<Rightarrow> string \<Rightarrow> string" where
  "backup_path file_path ts = file_path @ ''.backup_'' @ ts"

definition create_backup :: "env \<Rightarrow> world \<Rightarrow> string \<Rightarrow> py_error + world" where
  "create_backup ev w file_path =
     (let bp = backup_path file_path (timestamp ev (tick w))
      in case disk w file_path of
           None \<Rightarrow> (if dirs w file_path \<noteq> None then Inl (IsADirectoryError file_path)
                    else Inl (FileNotFoundError file_path))
         | Some f \<Rightarrow>
             if bp \<in> unwritable w then Inl (PermissionError bp)
             else if dirs w bp \<noteq> None then Inl (IsADirectoryError bp)
             else Inr (w\<lparr>disk := (disk w)(bp \<mapsto> f), tick := Suc (tick w)\<rparr>))"

definition exists :: "world \<Rightarrow> string \<Rightarrow> bool" where
  "exists w p = (disk w p \<noteq> None \<or> dirs w p \<noteq> None)"

definition getmtime :: "world \<Rightarrow> string \<Rightarrow> py_error + nat" where
  "getmtime w p =
     (case disk w p of
        Some (c, m) \<Rightarrow> Inr m
      | None \<Rightarrow> (case dirs w p of Some m \<Rightarrow> Inr m | None \<Rightarrow> Inl (FileNotFoundError p)))"

section \<open>Building and refreshing the registry\<close>

text \<open>
  \<open>CLASS_RE\<close> is \<open>\<backslash>bclass\<backslash>s+(\<backslash>w+)\<close>, \<open>IMPORT_RE\<close> is \<open>^import\<backslash>s+([\<backslash>w\<backslash>.]+)\<backslash>s*;\<close> in
  multi-line mode, \<open>CALL_RE\<close> is \<open>new\<backslash>s+(\<backslash>w+)\<backslash>(|(\<backslash>w+)\<backslash>.\<close>. As in \<open>STACK_TRACE_RE\<close>,
  every repetition ends at a character outside its class, so the greedy match decides.
\<close>

fun strip_prefix :: "string \<Rightarrow> string \<Rightarrow> string option" where
  "strip_prefix [] s = Some s"
| "strip_prefix (p # ps) [] = None"
| "strip_prefix (p # ps) (c # cs) = (if p = c then strip_prefix ps cs else None)"

text \<open>\<open>\<backslash>b\<close> before a word character: the text starts here or the previous character is
  not a word character. \<open>^\<close> in multi-line mode: the text starts here or the previous
  character is a line feed.\<close>

definition word_start :: "char option \<Rightarrow> bool" where
  "word_start prev = (case prev of None \<Rightarrow> True | Some c \<Rightarrow> \<not> is_word c)"

definition line_start :: "char option \<Rightarrow> bool" where
  "line_start prev = (case prev of None \<Rightarrow> True | Some c \<Rightarrow> c = CHR 0x0A)"

definition match_class :: "string \<Rightarrow> string option" where
  "match_class s =
     (case strip_prefix ''class'' s of
        None \<Rightarrow> None
      | Some s1 \<Rightarrow>
          if takeWhile is_space s1 = [] then None
          else let g = takeWhile is_word (dropWhile is_space s1)
               in if g = [] then None else Some g)"

text \<open>\<open>CLASS_RE.search\<close>: the leftmost match.\<close>

fun search_class :: "char option \<Rightarrow> string \<Rightarrow> string option" where
  "search_class prev [] = None"
| "search_class prev (c # cs) =
     (if word_start prev then
        (case match_class (c # cs) of
           Some g \<Rightarrow> Some g
         | None \<Rightarrow> search_class (Some c) cs)
      else search_class (Some c) cs)"

definition import_char :: "char \<Rightarrow> bool" where
  "import_char c = (is_word c \<or> c = CHR ''.'')"

definition match_import :: "string \<Rightarrow> (string \<times> string) option" where
  "match_import s =
     (case strip_prefix ''import'' s of
        None \<Rightarrow> None
      | Some s1 \<Rightarrow>
          if takeWhile is_space s1 = [] then None
          else let s2 = dropWhile is_space s1; g = takeWhile import_char s2 in
          if g = [] then None
          else (case strip_prefix '';'' (dropWhile is_space (dropWhile import_char s2)) of
                  None \<Rightarrow> None
                | Some r \<Rightarrow> Some (g, r)))"

definition match_new :: "string \<Rightarrow> (string \<times> string) option" where
  "match_new s =
     (case strip_prefix ''new'' s of
        None \<Rightarrow> None
      | Some s1 \<Rightarrow>
          if takeWhile is_space s1 = [] then None
          else let s2 = dropWhile is_space s1; g = takeWhile is_word s2 in
          if g = [] then None
          else (case strip_prefix ''('' (dropWhile is_word s2) of
                  None \<Rightarrow> None
                | Some r \<Rightarrow> Some (g, r)))"

definition match_member :: "string \<Rightarrow> (string \<times> string) option" where
  "match_member s =
     (let g = takeWhile is_word s in
      if g = [] then None
      else (case strip_prefix ''.'' (dropWhile is_word s) of
              None \<Rightarrow> None
            | Some r \<Rightarrow> Some (g, r)))"

text \<open>The alternatives of \<open>CALL_RE\<close> are tried in their order. \<open>findall\<close> gives a pair of
  groups of which one is empty, and \<open>c[0] or c[1]\<close> is the other.\<close>

definition match_call :: "string \<Rightarrow> (string \<times> string) option" where
  "match_call s = (case match_new s of Some x \<Rightarrow> Some x | None \<Rightarrow> match_member s)"

lemma strip_prefix_length: "strip_prefix p s = Some r \<Longrightarrow> length r + length p = length s"
  by (induction p s rule: strip_prefix.induct) (auto split: if_splits)

lemma dropWhile_le: "length (dropWhile P (xs :: string)) \<le> length xs"
  by (rule length_dropWhile_le)

lemma match_import_shorter:
  assumes "match_import s = Some (g, r)"
  shows "length r < length s"
proof -
  from assms obtain s1 where
    a: "strip_prefix ''import'' s = Some s1" and
    b: "strip_prefix '';'' (dropWhile is_space (dropWhile import_char (dropWhile is_space s1)))
          = Some r"
    by (auto simp: match_import_def Let_def split: option.splits if_splits)
  have "length s1 < length s" using strip_prefix_length[OF a] by simp
  moreover have "length r \<le> length s1"
    using strip_prefix_length[OF b]
      dropWhile_le[of is_space "dropWhile import_char (dropWhile is_space s1)"]
      dropWhile_le[of import_char "dropWhile is_space s1"] dropWhile_le[of is_space s1]
    by simp
  ultimately show ?thesis by simp
qed

lemma match_new_shorter:
  assumes "match_new s = Some (g, r)"
  shows "length r < length s"
proof -
  from assms obtain s1 where
    a: "strip_prefix ''new'' s = Some s1" and
    b: "strip_prefix ''('' (dropWhile is_word (dropWhile is_space s1)) = Some r"
    by (auto simp: match_new_def Let_def split: option.splits if_splits)
  have "length s1 < length s" using strip_prefix_length[OF a] by simp
  moreover have "length r \<le> length s1"
    using strip_prefix_length[OF b]
      dropWhile_le[of is_word "dropWhile is_space s1"] dropWhile_le[of is_space s1]
    by simp
  ultimately show ?thesis by simp
qed

lemma match_member_shorter:
  assumes "match_member s = Some (g, r)"
  shows "length r < length s"
proof -
  from assms have b: "strip_prefix ''.'' (dropWhile is_word s) = Some r"
    by (auto simp: match_member_def Let_def split: option.splits if_splits)
  show ?thesis using strip_prefix_length[OF b] dropWhile_le[of is_word s] by simp
qed

lemma match_call_shorter: "match_call s = Some (g, r) \<Longrightarrow> length r < length s"
  by (auto simp: match_call_def split: option.splits
           dest: match_new_shorter match_member_shorter)

text \<open>\<open>findall\<close>: the text is scanned from the left; after a match the scan goes on behind
  it. The first argument is the character before the current position.\<close>

function findall_imports :: "char option \<Rightarrow> string \<Rightarrow> string list" where
  "findall_imports prev [] = []"
| "findall_imports prev (c # cs) =
     (if line_start prev then
        (case match_import (c # cs) of
           Some (g, r) \<Rightarrow> g # findall_imports (Some CHR '';'') r
         | None \<Rightarrow> findall_imports (Some c) cs)
      else findall_imports (Some c) cs)"
  by pat_completeness auto
termination
  by (relation "measure (\<lambda>(prev, s). length s)") (auto dest: match_import_shorter)

function findall_calls :: "string \<Rightarrow> string list" where
  "findall_calls [] = []"
| "findall_calls (c # cs) =
     (case match_call (c # cs) of
        Some (g, r) \<Rightarrow> g # findall_calls r
      | None \<Rightarrow> findall_calls cs)"
  by pat_completeness auto
termination
  by (relation "measure length") (auto dest: match_call_shorter)

text \<open>The entry \<open>build_file_entry\<close> derives from a path, the content read there and the
  modification time of the file.\<close>

definition entry_of :: "env \<Rightarrow> string \<Rightarrow> string \<Rightarrow> nat \<Rightarrow> file_entry" where
  "entry_of ev file_path content mtime =
     \<lparr>e_path = file_path,
      e_content = content,
      e_class = (case search_class None content of
                   Some g \<Rightarrow> g
                 | None \<Rightarrow> splitext_root (basename file_path)),
      e_imports = findall_imports None content,
      e_calls = findall_calls content,
      e_last_modified = mtime,
      e_checksum = md5 ev content\<rparr>"

definition build_file_entry :: "env \<Rightarrow> world \<Rightarrow> string \<Rightarrow> py_error + file_entry" where
  "build_file_entry ev w file_path =
     (case read_text w file_path of
        Inl e \<Rightarrow> Inl e
      | Inr content \<Rightarrow>
          (case getmtime w file_path of
             Inl e \<Rightarrow> Inl e
           | Inr mtime \<Rightarrow> Inr (entry_of ev file_path content mtime)))"

definition find_all_java_files :: "env \<Rightarrow> string \<Rightarrow> string list" where
  "find_all_java_files ev project_dir =
     concat (map (\<lambda>(root, names). map (path_join root) (filter (endswith ''.java'') names))
                 (walk ev project_dir))"

text \<open>The dictionary comprehension of \<open>build_file_index\<close>: a later file of the same name
  replaces the entry of an earlier one.\<close>

fun build_entries :: "env \<Rightarrow> world \<Rightarrow> string list \<Rightarrow> file_entry dict \<Rightarrow> py_error + file_entry dict" where
  "build_entries ev w [] acc = Inr acc"
| "build_entries ev w (fp # fps) acc =
     (case build_file_entry ev w fp of
        Inl e \<Rightarrow> Inl e
      | Inr entry \<Rightarrow> build_entries ev w fps (AList.update (basename fp) entry acc))"

definition build_file_index :: "env \<Rightarrow> world \<Rightarrow> string \<Rightarrow> py_error + file_entry dict" where
  "build_file_index ev w project_dir = build_entries ev w (find_all_java_files ev project_dir) []"

text \<open>\<open>refresh_file_index\<close> runs over a copy of the items and changes the dictionary: the
  second argument is what is left of the copy, the third the dictionary.\<close>

fun refresh_items :: "env \<Rightarrow> world \<Rightarrow> file_entry dict \<Rightarrow> file_entry dict \<Rightarrow> py_error + file_entry dict" where
  "refresh_items ev w [] file_index = Inr file_index"
| "refresh_items ev w ((filename, info) # items) file_index =
     (if \<not> exists w (e_path info) then
        refresh_items ev w items (AList.delete filename file_index)
      else
        (case getmtime w (e_path info) of
           Inl e \<Rightarrow> Inl e
         | Inr mtime \<Rightarrow>
             if mtime \<noteq> e_last_modified info then
               (case read_text w (e_path info) of
                  Inl e \<Rightarrow> Inl e
                | Inr content \<Rightarrow>
                    if md5 ev content \<noteq> e_checksum info then
                      (case build_file_entry ev w (e_path info) of
                         Inl e \<Rightarrow> Inl e
                       | Inr entry \<Rightarrow>
                           refresh_items ev w items (AList.update filename entry file_index))
                    else refresh_items ev w items file_index)
             else refresh_items ev w items file_index))"

definition refresh_file_index :: "env \<Rightarrow> world \<Rightarrow> file_entry dict \<Rightarrow> py_error + file_entry dict" where
  "refresh_file_index ev w file_index = refresh_items ev w file_index file_index"

section \<open>Fault localization\<close>

text \<open>
  \<open>STACK_TRACE_RE\<close> is \<open>\<backslash>bat\<backslash>s+[\<backslash>w\<backslash>.$]+\<backslash>((\<backslash>w+\<backslash>.java):\<backslash>d+\<backslash>)\<close>. Each repetition is followed
  by a character outside its class, so the greedy match is the only one.
  \<open>match_frame s\<close> matches the expression from \<open>at\<close> on at the start of \<open>s\<close> and returns
  the group and the rest of the text.
\<close>

definition frame_char :: "char \<Rightarrow> bool" where
  "frame_char c = (is_word c \<or> c = CHR ''.'' \<or> c = CHR ''$'')"

definition match_frame :: "string \<Rightarrow> (string \<times> string) option" where
  "match_frame s =
     (case strip_prefix ''at'' s of
        None \<Rightarrow> None
      | Some s1 \<Rightarrow>
          if takeWhile is_space s1 = [] then None
          else let s2 = dropWhile is_space s1 in
          if takeWhile frame_char s2 = [] then None
          else (case strip_prefix ''('' (dropWhile frame_char s2) of
                  None \<Rightarrow> None
                | Some s4 \<Rightarrow>
                    let w = takeWhile is_word s4 in
                    if w = [] then None
                    else (case strip_prefix ''.java:'' (dropWhile is_word s4) of
                            None \<Rightarrow> None
                          | Some s6 \<Rightarrow>
                              if takeWhile is_digit s6 = [] then None
                              else (case strip_prefix '')'' (dropWhile is_digit s6) of
                                      None \<Rightarrow> None
                                    | Some s8 \<Rightarrow> Some (w @ ''.java'', s8)))))"

lemma match_frame_shorter:
  assumes "match_frame s = Some (g, r)"
  shows "length r < length s"
proof -
  have dw: "\<And>P (xs :: string). length (dropWhile P xs) \<le> length xs"
    by (rule length_dropWhile_le)
  from assms obtain s1 s4 s6 where
    a: "strip_prefix ''at'' s = Some s1" and
    b: "strip_prefix ''('' (dropWhile frame_char (dropWhile is_space s1)) = Some s4" and
    c: "strip_prefix ''.java:'' (dropWhile is_word s4) = Some s6" and
    d: "strip_prefix '')'' (dropWhile is_digit s6) = Some r"
    by (auto simp: match_frame_def Let_def split: option.splits if_splits)
  have "length s1 < length s" using strip_prefix_length[OF a] by simp
  moreover have "length s4 \<le> length s1"
    using strip_prefix_length[OF b] dw[of frame_char "dropWhile is_space s1"] dw[of is_space s1]
    by simp
  moreover have "length s6 \<le> length s4"
    using strip_prefix_length[OF c] dw[of is_word s4] by simp
  moreover have "length r \<le> length s6"
    using strip_prefix_length[OF d] dw[of is_digit s6] by simp
  ultimately show ?thesis by simp
qed

text \<open>\<open>STACK_TRACE_RE.findall\<close>: the text is scanned from the left; after a match the scan
  goes on behind it.\<close>

function findall_frames :: "char option \<Rightarrow> string \<Rightarrow> string list" where
  "findall_frames prev [] = []"
| "findall_frames prev (c # cs) =
     (if word_start prev then
        (case match_frame (c # cs) of
           Some (g, r) \<Rightarrow> g # findall_frames (Some CHR '')'') r
         | None \<Rightarrow> findall_frames (Some c) cs)
      else findall_frames (Some c) cs)"
  by pat_completeness auto
termination
  by (relation "measure (\<lambda>(prev, s). length s)") (auto dest: match_frame_shorter)

definition extract_filenames_from_error :: "string \<Rightarrow> string set" where
  "extract_filenames_from_error error_text = set (findall_frames None error_text)"

text \<open>\<open>fan_out\<close>: the neighbour of a symbol is the symbol with \<open>.java\<close> appended, unless it
  ends in \<open>.java\<close> already.\<close>

definition neighbor_file :: "string \<Rightarrow> string" where
  "neighbor_file neighbor_class =
     (if \<not> endswith ''.java'' neighbor_class then neighbor_class @ ''.java''
      else neighbor_class)"

text \<open>One pass of the inner loops: the files a frontier reaches that are keys of the
  registry and not in \<open>expanded\<close> (which does not change during the pass).\<close>

definition next_frontier :: "file_entry dict \<Rightarrow> string set \<Rightarrow> string set \<Rightarrow> string set" where
  "next_frontier file_index expanded frontier =
     (\<Union>fname \<in> frontier.
        case map_of file_index fname of
          None \<Rightarrow> {}
        | Some info \<Rightarrow>
            {nf \<in> neighbor_file ` set (e_imports info @ e_calls info).
               nf \<in> set (keys file_index) \<and> nf \<notin> expanded})"

fun fan_out_rounds :: "nat \<Rightarrow> file_entry dict \<Rightarrow> string set \<Rightarrow> string set \<Rightarrow> string set" where
  "fan_out_rounds 0 file_index expanded frontier = expanded"
| "fan_out_rounds (Suc n) file_index expanded frontier =
     (let nf = next_frontier file_index expanded frontier
      in fan_out_rounds n file_index (expanded \<union> nf) nf)"

text \<open>\<open>range(depth)\<close> is empty for a negative depth.\<close>

definition fan_out :: "string set \<Rightarrow> file_entry dict \<Rightarrow> int \<Rightarrow> string set" where
  "fan_out files file_index depth = fan_out_rounds (nat depth) file_index files files"

text \<open>\<open>get_relevant_files\<close>: the dictionary comprehension runs over the set of selected
  names in the order Python iterates over it.\<close>

definition get_relevant_files :: "env \<Rightarrow> string \<Rightarrow> file_entry dict \<Rightarrow> int \<Rightarrow> file_entry dict" where
  "get_relevant_files ev error_text file_index depth =
     (let initial = extract_filenames_from_error error_text in
      if initial = {} then file_index
      else
        let selected_names = fan_out initial file_index depth
        in List.map_filter (\<lambda>name. map_option (Pair name) (map_of file_index name))
             (iter_set ev selected_names))"

section \<open>Patch application\<close>

text \<open>
  \<open>apply_fixes_to_code\<close> walks over the lines of the response. A line is a file name
  marker when, stripped, it starts with \<open>FILENAME:\<close> or ends with \<open>.java\<close>; the name is what
  follows the first colon, or the whole line when it has no colon.
\<close>

definition is_marker :: "string \<Rightarrow> bool" where
  "is_marker line = (startswith ''FILENAME:'' line \<or> endswith ''.java'' line)"

definition marker_name :: "string \<Rightarrow> string" where
  "marker_name line = (if CHR '':'' \<in> set line then strip (after_first_colon line) else line)"

definition is_fence :: "string \<Rightarrow> bool" where
  "is_fence line = (startswith ''```java'' line \<or> startswith ''```'' line)"

text \<open>The test of the inner loop: the raw line, stripped, starts with a fence.\<close>

definition closes_block :: "string \<Rightarrow> bool" where
  "closes_block raw = startswith ''```'' (strip raw)"

text \<open>\<open>next((k for k in source_files if ...), None)\<close>: the first key of the working set whose
  base name equals the base name of the marker, letter case ignored.\<close>

definition match_key :: "file_entry dict \<Rightarrow> string \<Rightarrow> string option" where
  "match_key source_files current_filename =
     find (\<lambda>k. lower (basename k) = lower (basename current_filename)) (keys source_files)"

text \<open>
  The outcome of a run is the exception that ended it, if any, with the registry and the
  world as they are at that moment: the registry is changed in place, so what was done
  before an exception stays done.
\<close>

type_synonym outcome = "py_error option \<times> file_entry dict \<times> world"

text \<open>
  The branch \<open>if matched_key:\<close>: backup, write, then the new entry, which is the old entry
  with \<open>content\<close>, \<open>last_modified\<close> and \<open>checksum\<close> replaced. The working set is read for
  the path only; when it is the registry itself (no seed was found), the entry read has
  the same path as before, since no update changes a path.
\<close>

definition apply_block ::
  "env \<Rightarrow> file_entry dict \<Rightarrow> string \<Rightarrow> string \<Rightarrow> file_entry dict \<Rightarrow> world \<Rightarrow> outcome" where
  "apply_block ev source_files matched_key fixed_code file_index w =
     (case map_of source_files matched_key of
        None \<Rightarrow> (Some (KeyError matched_key), file_index, w)
      | Some sinfo \<Rightarrow>
          let file_path = e_path sinfo in
          (case create_backup ev w file_path of
             Inl e \<Rightarrow> (Some e, file_index, w)
           | Inr w1 \<Rightarrow>
               (case write_file ev w1 file_path fixed_code of
                  Inl e \<Rightarrow> (Some e, file_index, w1)
                | Inr w2 \<Rightarrow>
                    (case map_of file_index matched_key of
                       None \<Rightarrow> (Some (KeyError matched_key), file_index, w2)
                     | Some old \<Rightarrow>
                         (case getmtime w2 file_path of
                            Inl e \<Rightarrow> (Some e, file_index, w2)
                          | Inr m \<Rightarrow>
                              (None,
                               AList.update matched_key
                                 (old\<lparr>e_content := fixed_code,
                                     e_last_modified := m,
                                     e_checksum := md5 ev fixed_code\<rparr>)
                                 file_index,
                               print (Fixed file_path) w2))))))"

text \<open>
  The loop over the lines, with the pending file name. On a fence with a pending name the
  inner loop collects the lines up to the next line that starts with a fence, or up to
  the end of the response; the outer loop goes on behind that line. A matched key that is
  the empty text counts as no match (\<open>if matched_key:\<close>).
\<close>

lemma drop_dropWhile_shorter: "length (dropWhile P xs) - Suc 0 < Suc (length xs)"
  using length_dropWhile_le[of P xs] by simp

function apply_lines ::
  "env \<Rightarrow> file_entry dict \<Rightarrow> string list \<Rightarrow> string option \<Rightarrow> file_entry dict \<Rightarrow> world
   \<Rightarrow> outcome" where
  "apply_lines ev source_files [] current_filename file_index w = (None, file_index, w)"
| "apply_lines ev source_files (raw # rest) current_filename file_index w =
     (let line = strip raw in
      if is_marker line then
        apply_lines ev source_files rest (Some (marker_name line)) file_index
          (print (Processing (marker_name line)) w)
      else if is_fence line then
        (case current_filename of
           None \<Rightarrow>
             apply_lines ev source_files rest None file_index (print BlockWithoutFilename w)
         | Some name \<Rightarrow>
             let code_lines = takeWhile (\<lambda>r. \<not> closes_block r) rest;
                 remaining = drop 1 (dropWhile (\<lambda>r. \<not> closes_block r) rest);
                 fixed_code = join [CHR 0x0A] code_lines
             in (case match_key source_files name of
                   None \<Rightarrow>
                     apply_lines ev source_files remaining None file_index
                       (print (UnknownFile name) w)
                 | Some matched_key \<Rightarrow>
                     if matched_key = [] then
                       apply_lines ev source_files remaining None file_index
                         (print (UnknownFile name) w)
                     else
                       (case apply_block ev source_files matched_key fixed_code file_index w of
                          (err, file_index', w') \<Rightarrow>
                            (case err of
                               Some e \<Rightarrow> (Some e, file_index', w')
                             | None \<Rightarrow>
                                 apply_lines ev source_files remaining None file_index' w'))))
      else apply_lines ev source_files rest current_filename file_index w)"
  by pat_completeness auto
termination
  by (relation "measure (\<lambda>(ev, source_files, ls, current_filename, file_index, w). length ls)")
     (auto simp: drop_dropWhile_shorter)

definition apply_fixes_to_code ::
  "env \<Rightarrow> string \<Rightarrow> file_entry dict \<Rightarrow> file_entry dict \<Rightarrow> world \<Rightarrow> outcome" where
  "apply_fixes_to_code ev response_text source_files file_index w =
     apply_lines ev source_files (split_nl response_text) None file_index w"

subsection \<open>The response as a sequence of actions\<close>





section \<open>The repair proposer\<close>

text \<open>A value parsed from JSON. Numbers with a fraction are left out of the model.\<close>

datatype json =
  JNull
| JBool bool
| JInt int
| JStr string
| JList "json list"
| JObj "(string \<times> json) list"

text \<open>
  The session state is the dictionary the graph threads through its nodes; a key that is
  absent is \<open>None\<close>. The keys \<open>repo_url\<close>, \<open>branch_name\<close>, \<open>commit_message\<close> and
  \<open>local_repo_path\<close>, which only the commit node reads, are left out.
\<close>

record session =
  st_springboot_path :: "string option"
  st_file_index :: "file_entry dict option"
  st_relevant_files :: "file_entry dict option"
  st_original_code_backup :: "string dict option"
  st_original_code_path_map :: "string dict option"
  st_original_code :: "string option"
  st_fixed_code :: "string option"
  st_original_error :: "string option"
  st_test_failure_reason :: "string option"
  st_decision :: "json option"
  st_detailed_report :: "string option"
  st_recommendations :: "json option"
  st_failure_reasons :: "json option"
  st_retries :: "int option"

fun find_error_log_in :: "(string \<times> string list) list \<Rightarrow> py_error + string" where
  "find_error_log_in [] =
     Inl (FileNotFoundError ''Could not locate error.log in the project directory.'')"
| "find_error_log_in ((root, names) # others) =
     (if ''error.log'' \<in> set names then Inr (path_join root ''error.log'')
      else if ''customs-engine.log'' \<in> set names then Inr (path_join root ''customs-engine.log'')
      else find_error_log_in others)"

definition find_error_log :: "env \<Rightarrow> string \<Rightarrow> py_error + string" where
  "find_error_log ev start_dir = find_error_log_in (walk ev start_dir)"

text \<open>The loop that climbs from the error log to the project directory, at most ten
  steps.\<close>

fun find_project_dir :: "nat \<Rightarrow> world \<Rightarrow> string \<Rightarrow> string" where
  "find_project_dir 0 w project_dir = project_dir"
| "find_project_dir (Suc n) w project_dir =
     (let d = dirname project_dir in
      if exists w (path_join d ''src'') \<or> exists w (path_join d ''pom.xml'') then d
      else find_project_dir n w d)"

definition extract_code_context :: "file_entry dict \<Rightarrow> string" where
  "extract_code_context source_files =
     concat (map (\<lambda>(filename, info).
                    [CHR 0x0A] @ ''--- '' @ filename @ '' ---'' @ [CHR 0x0A] @ e_content info)
                 source_files)"

definition extra_note :: "session \<Rightarrow> string" where
  "extra_note state =
     (case st_test_failure_reason state of
        None \<Rightarrow> []
      | Some reason \<Rightarrow>
          [CHR 0x0A] @ ''NOTE FROM VALIDATION AGENT:Previous fix was rejected during automated testing.You MUST address this feedback.''
          @ [CHR 0x0A] @ reason @ [CHR 0x0A])"

text \<open>\<open>{fname: file_index[fname] for fname in relevant_files}\<close>.\<close>

fun pick_entries :: "string list \<Rightarrow> file_entry dict \<Rightarrow> py_error + file_entry dict" where
  "pick_entries [] file_index = Inr []"
| "pick_entries (fname # others) file_index =
     (case map_of file_index fname of
        None \<Rightarrow> Inl (KeyError fname)
      | Some info \<Rightarrow>
          (case pick_entries others file_index of
             Inl e \<Rightarrow> Inl e
           | Inr d \<Rightarrow> Inr ((fname, info) # d)))"

definition file_banner :: "string \<Rightarrow> string \<Rightarrow> string" where
  "file_banner fname code = ''// FILE: '' @ fname @ [CHR 0x0A] @ code"

text \<open>
  \<open>node_fixer\<close>. An exception ends the session, so the result is either the exception or
  the new state, with the world as it is then. The registry is changed in place by
  \<open>apply_fixes_to_code\<close>, and the backup is taken from it afterwards.
\<close>

definition node_fixer :: "env \<Rightarrow> session \<Rightarrow> world \<Rightarrow> (py_error + session) \<times> world" where
  "node_fixer ev state w =
     (let start_dir = (case st_springboot_path state of Some d \<Rightarrow> d | None \<Rightarrow> cwd ev) in
      case find_error_log ev start_dir of
        Inl e \<Rightarrow> (Inl e, w)
      | Inr error_log_path \<Rightarrow>
      (case read_text w error_log_path of
        Inl e \<Rightarrow> (Inl e, w)
      | Inr log_text \<Rightarrow>
      let error_log = drop (length log_text - 5000) log_text;
          project_dir = find_project_dir 10 w error_log_path
      in
      (case (case st_file_index state of
               None \<Rightarrow> build_file_index ev w project_dir
             | Some fi \<Rightarrow> refresh_file_index ev w fi) of
        Inl e \<Rightarrow> (Inl e, w)
      | Inr file_index \<Rightarrow>
      let relevant_files = get_relevant_files ev error_log file_index 2 in
      (case propose ev \<lparr>p_extra_note = extra_note state, p_error_log = error_log,
                           p_source_code = extract_code_context relevant_files\<rparr> of
        Inl e \<Rightarrow> (Inl e, w)
      | Inr response_text \<Rightarrow>
      (case apply_fixes_to_code ev response_text relevant_files file_index w of
        (Some e, file_index', w') \<Rightarrow> (Inl e, w')
      | (None, file_index', w') \<Rightarrow>
      let backup =
            (case st_original_code_backup state of
               None \<Rightarrow> map (\<lambda>(fname, info). (fname, e_content info)) file_index'
             | Some b \<Rightarrow> b);
          path_map =
            (case st_original_code_backup state of
               None \<Rightarrow> Some (map (\<lambda>(fname, info). (fname, e_path info)) file_index')
             | Some b \<Rightarrow> st_original_code_path_map state)
      in
      (case pick_entries (keys relevant_files) file_index' of
        Inl e \<Rightarrow> (Inl e, w')
      | Inr relevant' \<Rightarrow>
          (Inr (state\<lparr>st_file_index := Some file_index',
                       st_original_code_backup := Some backup,
                       st_original_code_path_map := path_map,
                       st_relevant_files := Some relevant',
                       st_original_code :=
                         Some (join ([CHR 0x0A, CHR 0x0A])
                                 (map (\<lambda>(fname, code). file_banner fname code) backup)),
                       st_fixed_code :=
                         Some (join ([CHR 0x0A, CHR 0x0A])
                                 (map (\<lambda>(fname, info). file_banner fname (e_content info))
                                      (filter (\<lambda>(fname, info). fname \<in> set (keys backup))
                                              file_index'))),
                       st_original_error := Some error_log\<rparr>),
           w')))))))"

section \<open>The validation pipeline\<close>

text \<open>
  One attempt of \<open>invoke_with_json_response\<close> either returns what \<open>json.loads\<close> gives or
  raises an exception, of which only the text \<open>str(e)\<close> is used. The oracle is given as the
  outcome of each attempt of each stage (stages 0 to 4 are the five analyses, stage 5 is
  the final decision). \<open>init_failure\<close> is the text of the exception \<open>LLMService()\<close> raises,
  if it raises; \<open>py_str\<close> is Python's formatting of a parsed value inside an f-string;
  \<open>exc_text\<close> is \<open>str(e)\<close> for an exception the interpreter raises.
\<close>

datatype attempt = Reply json | Failure string

record llm =
  init_failure :: "string option"
  attempts :: "nat \<Rightarrow> nat \<Rightarrow> attempt"
  py_str :: "json \<Rightarrow> string"
  exc_text :: "py_error \<Rightarrow> string"

text \<open>\<open>sub in s\<close> on texts.\<close>

fun contains :: "string \<Rightarrow> string \<Rightarrow> bool" where
  "contains sub [] = (sub = [])"
| "contains sub (c # cs) = (startswith sub (c # cs) \<or> contains sub cs)"

definition max_retries :: nat where
  "max_retries = 3"

text \<open>The loop \<open>for attempt in range(max_retries)\<close>; the second argument counts the attempts
  that are left. Every path of the last attempt returns, so the loop never runs out.\<close>

fun invoke_loop :: "(nat \<Rightarrow> attempt) \<Rightarrow> nat \<Rightarrow> nat \<Rightarrow> json" where
  "invoke_loop tries 0 attempt = JNull"
| "invoke_loop tries (Suc left) attempt =
     (case tries attempt of
        Reply v \<Rightarrow> v
      | Failure msg \<Rightarrow>
          let error_msg = lower msg in
          if contains ''429'' error_msg \<or> contains ''quota'' error_msg
             \<or> contains ''rate limit'' error_msg
          then
            (if attempt < max_retries - 1 then invoke_loop tries left (Suc attempt)
             else JObj [(''error'', JStr ''Rate limit exceeded''),
                        (''raw_response'', JStr ''Rate limit error'')])
          else if contains ''json'' error_msg then
            JObj [(''error'', JStr ''Failed to parse LLM response''),
                  (''raw_response'', JStr msg)]
          else if attempt < max_retries - 1 then invoke_loop tries left (Suc attempt)
          else JObj [(''error'', JStr (''LLM call failed: '' @ msg))])"

definition invoke_with_json_response :: "(nat \<Rightarrow> attempt) \<Rightarrow> json" where
  "invoke_with_json_response tries = invoke_loop tries max_retries 0"

text \<open>What Python does with a parsed value: truth value, \<open>d.get(k, default)\<close>, whether
  \<open>v[:n]\<close> and \<open>len(v)\<close> are defined, the first items of \<open>v[:n]\<close>, and \<open>a + b\<close>.\<close>

definition truthy :: "json \<Rightarrow> bool" where
  "truthy v =
     (case v of
        JNull \<Rightarrow> False
      | JBool b \<Rightarrow> b
      | JInt n \<Rightarrow> n \<noteq> 0
      | JStr t \<Rightarrow> t \<noteq> []
      | JList l \<Rightarrow> l \<noteq> []
      | JObj d \<Rightarrow> d \<noteq> [])"

definition dict_get :: "(string \<times> json) list \<Rightarrow> string \<Rightarrow> json \<Rightarrow> json" where
  "dict_get d k dflt = (case map_of d k of Some v \<Rightarrow> v | None \<Rightarrow> dflt)"

definition sliceable :: "json \<Rightarrow> bool" where
  "sliceable v = (case v of JStr t \<Rightarrow> True | JList l \<Rightarrow> True | _ \<Rightarrow> False)"

definition has_len :: "json \<Rightarrow> bool" where
  "has_len v = (case v of JStr t \<Rightarrow> True | JList l \<Rightarrow> True | JObj d \<Rightarrow> True | _ \<Rightarrow> False)"

definition first_items :: "nat \<Rightarrow> json \<Rightarrow> json list" where
  "first_items n v =
     (case v of
        JList l \<Rightarrow> take n l
      | JStr t \<Rightarrow> map (\<lambda>c. JStr [c]) (take n t)
      | _ \<Rightarrow> [])"

definition py_add :: "json \<Rightarrow> json \<Rightarrow> py_error + json" where
  "py_add a b =
     (case (a, b) of
        (JList x, JList y) \<Rightarrow> Inr (JList (x @ y))
      | (JStr x, JStr y) \<Rightarrow> Inr (JStr (x @ y))
      | (JInt x, JInt y) \<Rightarrow> Inr (JInt (x + y))
      | (JInt x, JBool y) \<Rightarrow> Inr (JInt (x + (if y then 1 else 0)))
      | (JBool x, JInt y) \<Rightarrow> Inr (JInt ((if x then 1 else 0) + y))
      | (JBool x, JBool y) \<Rightarrow> Inr (JInt ((if x then 1 else 0) + (if y then 1 else 0)))
      | _ \<Rightarrow> Inl TypeError)"

text \<open>\<open>if v: ... len(v) ... v[:n] ...\<close>: a value that is true must have a length and a
  slice.\<close>

definition check_listing :: "json \<Rightarrow> py_error option" where
  "check_listing v =
     (if truthy v then (if has_len v \<and> sliceable v then None else Some TypeError) else None)"

text \<open>
  The five analysis nodes have one shape: the reply is printed, which raises unless it is
  an object (and, in two nodes, unless some of its fields can be sliced), and is stored
  under the stage's key; an exception stores an object with the key \<open>error\<close> instead.
  \<open>shown\<close> is the exception the node's print statements raise on an object.
\<close>

definition stage_node :: "llm \<Rightarrow> nat \<Rightarrow> ((string \<times> json) list \<Rightarrow> py_error option) \<Rightarrow> json" where
  "stage_node L k shown =
     (let analysis = invoke_with_json_response (attempts L k) in
      case analysis of
        JObj a \<Rightarrow>
          (case shown a of
             None \<Rightarrow> analysis
           | Some e \<Rightarrow> JObj [(''error'', JStr (exc_text L e))])
      | _ \<Rightarrow> JObj [(''error'', JStr (exc_text L AttributeError))])"

definition analyze_error_node :: "llm \<Rightarrow> json" where
  "analyze_error_node L = stage_node L 0 (\<lambda>a. None)"

definition code_diff_analysis_node :: "llm \<Rightarrow> json" where
  "code_diff_analysis_node L = stage_node L 1 (\<lambda>a. None)"

definition logic_shown :: "(string \<times> json) list \<Rightarrow> py_error option" where
  "logic_shown a =
     (if truthy (dict_get a ''logical_reasoning'' JNull) then
        (if sliceable (dict_get a ''logical_reasoning'' (JStr [])) then None
         else Some TypeError)
      else None)"

definition logic_validation_node :: "llm \<Rightarrow> json" where
  "logic_validation_node L = stage_node L 2 logic_shown"

definition semantic_validation_node :: "llm \<Rightarrow> json" where
  "semantic_validation_node L = stage_node L 3 (\<lambda>a. None)"

definition security_shown :: "(string \<times> json) list \<Rightarrow> py_error option" where
  "security_shown a =
     (let vulnerabilities = dict_get a ''vulnerabilities_found'' (JList []);
          recs = dict_get a ''security_recommendations'' (JList [])
      in case check_listing vulnerabilities of
           Some e \<Rightarrow> Some e
         | None \<Rightarrow>
             (case check_listing recs of
                Some e \<Rightarrow> Some e
              | None \<Rightarrow>
                  if truthy recs \<and> \<not> list_all sliceable (first_items 2 recs)
                  then Some TypeError else None))"

definition security_validation_node :: "llm \<Rightarrow> json" where
  "security_validation_node L = stage_node L 4 security_shown"

text \<open>The result of the pipeline: the four keys \<open>testing_node\<close> reads.\<close>

record validation_result =
  r_decision :: json
  r_detailed_report :: string
  r_recommendations :: json
  r_failure_reasons :: json

text \<open>\<open>state.get(stage, {}).get(field, 'Unknown')\<close>.\<close>

definition stage_field :: "json \<Rightarrow> string \<Rightarrow> py_error + json" where
  "stage_field analysis field =
     (case analysis of
        JObj a \<Rightarrow> Inr (dict_get a field (JStr ''Unknown''))
      | _ \<Rightarrow> Inl AttributeError)"

definition report_text :: "llm \<Rightarrow> json list \<Rightarrow> string" where
  "report_text L vs =
     (case map (py_str L) vs of
        [d, r, oa, dr, et, es, lc, sr, cq] \<Rightarrow>
          [CHR 0x0A] @ ''SRE VALIDATION REPORT'' @ [CHR 0x0A] @ ''===================='' @ [CHR 0x0A]
          @ [CHR 0x0A] @ ''DECISION: '' @ d @ [CHR 0x0A] @ ''REASONING: '' @ r @ [CHR 0x0A]
          @ [CHR 0x0A] @ ''OVERALL ASSESSMENT: '' @ oa @ [CHR 0x0A] @ ''DEPLOYMENT RISK: '' @ dr
          @ [CHR 0x0A] @ [CHR 0x0A] @ ''ANALYSIS SUMMARY:'' @ [CHR 0x0A] @ ''- Error Type: '' @ et
          @ [CHR 0x0A] @ ''- Error Severity: '' @ es @ [CHR 0x0A] @ ''- Logic Correctness: '' @ lc
          @ [CHR 0x0A] @ ''- Security Risk: '' @ sr @ [CHR 0x0A] @ ''- Code Quality: '' @ cq
          @ [CHR 0x0A]
      | _ \<Rightarrow> [])"

text \<open>The \<open>try\<close> block of \<open>final_decision_node\<close>, given the reply of the oracle service and
  the five analyses (error, diff, logic, semantic, security).\<close>

definition decide :: "llm \<Rightarrow> json \<Rightarrow> json \<Rightarrow> json \<Rightarrow> json \<Rightarrow> json \<Rightarrow> py_error + validation_result" where
  "decide L decision error_analysis logic_validation semantic_validation security_validation =
     (case decision of
        JObj d \<Rightarrow>
          let final_decision = dict_get d ''decision'' (JStr ''NEEDS_REVIEW'');
              reasoning = dict_get d ''decision_reasoning'' (JStr ''No reasoning provided'')
          in
          (case py_add (dict_get d ''recommended_actions'' (JList []))
                       (dict_get d ''minor_improvements'' (JList [])) of
             Inl e \<Rightarrow> Inl e
           | Inr recommendations \<Rightarrow>
          let issues = dict_get d ''critical_issues'' (JList []) in
          (case stage_field error_analysis ''error_type'' of Inl e \<Rightarrow> Inl e | Inr et \<Rightarrow>
          (case stage_field error_analysis ''severity'' of Inl e \<Rightarrow> Inl e | Inr es \<Rightarrow>
          (case stage_field logic_validation ''logic_correctness'' of Inl e \<Rightarrow> Inl e | Inr lc \<Rightarrow>
          (case stage_field security_validation ''risk_level'' of Inl e \<Rightarrow> Inl e | Inr sr \<Rightarrow>
          (case stage_field semantic_validation ''code_style_compliance'' of
             Inl e \<Rightarrow> Inl e
           | Inr cq \<Rightarrow>
          if \<not> sliceable reasoning then Inl TypeError
          else (case check_listing recommendations of
                  Some e \<Rightarrow> Inl e
                | None \<Rightarrow>
                    (case check_listing issues of
                       Some e \<Rightarrow> Inl e
                     | None \<Rightarrow>
                         Inr \<lparr>r_decision = final_decision,
                              r_detailed_report =
                                report_text L
                                  [final_decision, reasoning,
                                   dict_get d ''overall_assessment''
                                     (JStr ''No assessment provided''),
                                   dict_get d ''deployment_risk'' (JStr ''Unknown''),
                                   et, es, lc, sr, cq],
                              r_recommendations = recommendations,
                              r_failure_reasons = issues\<rparr>))))))))
      | _ \<Rightarrow> Inl AttributeError)"

text \<open>The result a failure gives, in \<open>final_decision_node\<close> (\<open>Decision process failed\<close>) and in
  \<open>validate_code_with_llm\<close> (\<open>Workflow failed\<close>).\<close>

definition system_failure :: "string \<Rightarrow> string \<Rightarrow> validation_result" where
  "system_failure what msg =
     \<lparr>r_decision = JStr ''REJECT'',
      r_detailed_report = what @ '' failed: '' @ msg,
      r_recommendations = JList [JStr ''Manual review required due to system failure''],
      r_failure_reasons = JList [JStr (''System error: '' @ msg)]\<rparr>"

definition final_decision_node :: "llm \<Rightarrow> json \<Rightarrow> json \<Rightarrow> json \<Rightarrow> json \<Rightarrow> validation_result" where
  "final_decision_node L error_analysis logic_validation semantic_validation security_validation =
     (case decide L (invoke_with_json_response (attempts L 5))
             error_analysis logic_validation semantic_validation security_validation of
        Inr result \<Rightarrow> result
      | Inl e \<Rightarrow> system_failure ''Decision process'' (exc_text L e))"

text \<open>\<open>validate_code_with_llm\<close>: the six nodes in sequence. Each node builds its
  \<open>LLMService\<close> outside of its \<open>try\<close>, so a failure there leaves the workflow.\<close>

definition validate_code_with_llm :: "llm \<Rightarrow> validation_result" where
  "validate_code_with_llm L =
     (case init_failure L of
        Some msg \<Rightarrow> system_failure ''Workflow'' msg
      | None \<Rightarrow>
          final_decision_node L (analyze_error_node L) (logic_validation_node L)
            (semantic_validation_node L) (security_validation_node L))"

section \<open>The orchestrator\<close>

text \<open>What the call of \<open>validate_code_with_llm\<close> inside \<open>testing_node\<close> does: it returns a
  result, raises \<open>ResourceExhausted\<close>, or raises another exception.\<close>

datatype validation_outcome =
  Returned validation_result
| ResourceExhausted string
| Raised string

text \<open>\<open>"; ".join(reasons)\<close> on a parsed value.\<close>

definition join_reasons :: "json \<Rightarrow> py_error + string" where
  "join_reasons reasons =
     (case reasons of
        JList l \<Rightarrow>
          (if list_all (\<lambda>v. case v of JStr t \<Rightarrow> True | _ \<Rightarrow> False) l
           then Inr (join ''; '' (map (\<lambda>v. case v of JStr t \<Rightarrow> t | _ \<Rightarrow> []) l))
           else Inl TypeError)
      | JStr t \<Rightarrow> Inr (join ''; '' (map (\<lambda>c. [c]) t))
      | JObj d \<Rightarrow> Inr (join ''; '' (map fst d))
      | _ \<Rightarrow> Inl TypeError)"

definition retries_or_0 :: "session \<Rightarrow> int" where
  "retries_or_0 state = (case st_retries state of Some r \<Rightarrow> r | None \<Rightarrow> 0)"

text \<open>The two \<open>except\<close> branches of \<open>testing_node\<close>. The messages start with a symbol
  outside the modelled character range, which is left out.\<close>

definition review_state :: "session \<Rightarrow> string \<Rightarrow> string list \<Rightarrow> string \<Rightarrow> string \<Rightarrow> session" where
  "review_state state report recs reason feedback =
     state\<lparr>st_decision := Some (JStr ''NEEDS_REVIEW''),
           st_detailed_report := Some report,
           st_recommendations := Some (JList (map JStr recs)),
           st_failure_reasons := Some (JList [JStr reason]),
           st_retries := Some (retries_or_0 state),
           st_test_failure_reason := Some feedback\<rparr>"

definition testing_node ::
  "(string \<Rightarrow> string \<Rightarrow> string \<Rightarrow> validation_outcome) \<Rightarrow> session \<Rightarrow> py_error + session" where
  "testing_node validate state =
     (case st_relevant_files state of
        None \<Rightarrow> Inl (KeyError ''relevant_files'')
      | Some relevant_files \<Rightarrow>
      (case st_original_code_backup state of
        None \<Rightarrow> Inl (KeyError ''original_code_backup'')
      | Some original_code_backup \<Rightarrow>
      let original_code =
            join [CHR 0x0A, CHR 0x0A]
              (map (\<lambda>fname. file_banner fname
                      (case map_of original_code_backup fname of Some c \<Rightarrow> c | None \<Rightarrow> []))
                   (keys relevant_files));
          fixed_code =
            join [CHR 0x0A, CHR 0x0A]
              (map (\<lambda>(fname, file_info). file_banner fname (e_content file_info))
                   relevant_files);
          outcome =
            (case st_original_error state of
               None \<Rightarrow> Raised ([CHR 0x27] @ ''original_error'' @ [CHR 0x27])
             | Some original_error \<Rightarrow> validate original_code fixed_code original_error)
      in
      (case outcome of
         ResourceExhausted msg \<Rightarrow>
           Inr (review_state state
                  ''Gemini API quota exhausted. LLM validation could not proceed.''
                  [''Wait for quota reset or use a different API key.'']
                  ''QuotaExceeded''
                  ('' LLM validation skipped due to Gemini quota exhaustion.''
                   @ [CHR 0x0A, CHR 0x0A] @ msg))
       | Raised msg \<Rightarrow>
           Inr (review_state state
                  (''LLM validation failed due to an unexpected error: '' @ msg)
                  [''Check logs for error details'', ''Retry after fixing the error'']
                  ''UnexpectedError''
                  ('' LLM validation failed due to: '' @ msg))
       | Returned result \<Rightarrow>
           let updated_state =
                 state\<lparr>st_decision := Some (r_decision result),
                       st_detailed_report := Some (r_detailed_report result),
                       st_recommendations := Some (r_recommendations result),
                       st_failure_reasons := Some (r_failure_reasons result),
                       st_retries := Some (retries_or_0 state)\<rparr>
           in
           if r_decision result = JStr ''REJECT'' then
             (case (if truthy (r_failure_reasons result)
                    then (case join_reasons (r_failure_reasons result) of
                            Inl e \<Rightarrow> Inl e
                          | Inr t \<Rightarrow> Inr (''REJECTED. Reasons: '' @ t))
                    else Inr ''REJECTED. No clear reason provided.'') of
                Inl e \<Rightarrow> Inl e
              | Inr summary \<Rightarrow>
                  Inr (updated_state
                         \<lparr>st_retries := Some (retries_or_0 state + 1),
                          st_test_failure_reason :=
                            Some (summary @ [CHR 0x0A, CHR 0x0A]
                                  @ ''--- FULL VALIDATION REPORT ---'' @ [CHR 0x0A]
                                  @ r_detailed_report result)\<rparr>))
           else Inr updated_state)))"

text \<open>\<open>restore_original_code\<close>: the loop over the items of the backup. A file without a
  recorded path is passed over; a write that fails is reported and the loop goes on.\<close>

fun restore_items :: "env \<Rightarrow> string dict \<Rightarrow> (string \<times> string) list \<Rightarrow> world \<Rightarrow> world" where
  "restore_items ev path_map [] w = w"
| "restore_items ev path_map ((filename, original_content) # items) w =
     (case map_of path_map filename of
        None \<Rightarrow> restore_items ev path_map items w
      | Some abs_path \<Rightarrow>
          if abs_path = [] then restore_items ev path_map items w
          else
            (case write_file ev w abs_path original_content of
               Inr w' \<Rightarrow> restore_items ev path_map items (print (Restored filename) w')
             | Inl e \<Rightarrow> restore_items ev path_map items (print (FailedRestore filename) w)))"

definition restore_original_code :: "env \<Rightarrow> session \<Rightarrow> world \<Rightarrow> world" where
  "restore_original_code ev state w =
     (let path_map = (case st_original_code_path_map state of Some m \<Rightarrow> m | None \<Rightarrow> []);
          backup = (case st_original_code_backup state of Some b \<Rightarrow> b | None \<Rightarrow> [])
      in restore_items ev path_map backup w)"

text \<open>\<open>router\<close> returns the next node, \<open>END\<close> or \<open>"fix_code"\<close>; it changes the state it is
  given and, on rollback, the files.\<close>

datatype route = END | fix_code

definition retry_ceiling :: int where
  "retry_ceiling = 3"

definition router :: "env \<Rightarrow> session \<Rightarrow> world \<Rightarrow> route \<times> session \<times> world" where
  "router ev state w =
     (if st_decision state = Some (JStr ''DEPLOY'') then (END, state, w)
      else if st_decision state = Some (JStr ''NEEDS_REVIEW'') then (END, state, w)
      else if retries_or_0 state \<ge> retry_ceiling then
        (END, state, restore_original_code ev state w)
      else (fix_code, state\<lparr>st_retries := Some (retries_or_0 state + 1)\<rparr>, w))"

text \<open>
  The edge from \<open>test_code\<close>, \<open>add_conditional_edges("test_code", router, ...)\<close>: the
  state of the graph after the node is the dictionary \<open>testing_node\<close> returns, and \<open>router\<close>
  is called on it to choose the next node. Only the choice of \<open>router\<close> and what it does to
  the files go on: what it assigns to \<open>retries\<close> in the dictionary it is given is not
  written to the state of the graph, so the next node sees the counter as \<open>testing_node\<close>
  left it.
\<close>

definition validate_and_route ::
  "env \<Rightarrow> (string \<Rightarrow> string \<Rightarrow> string \<Rightarrow> validation_outcome) \<Rightarrow> session \<Rightarrow> world
   \<Rightarrow> py_error + (route \<times> session \<times> world)" where
  "validate_and_route ev validate state w =
     (case testing_node validate state of
        Inl e \<Rightarrow> Inl e
      | Inr state' \<Rightarrow>
          (case router ev state' w of
             (next_node, assigned, w') \<Rightarrow> Inr (next_node, state', w')))"

subsection \<open>Fan-out as the specification words it\<close>

text \<open>
  Expansion of the whole accumulated set, in rounds: every file of the set contributes
  the registry members its imports and calls name.
\<close>

definition successors :: "file_entry dict \<Rightarrow> string set \<Rightarrow> string set" where
  "successors file_index S =
     (\<Union>fname \<in> S.
        case map_of file_index fname of
          None \<Rightarrow> {}
        | Some info \<Rightarrow>
            {nf \<in> neighbor_file ` set (e_imports info @ e_calls info).
               nf \<in> set (keys file_index)})"

fun expand_all :: "nat \<Rightarrow> file_entry dict \<Rightarrow> string set \<Rightarrow> string set" where
  "expand_all 0 file_index S = S"
| "expand_all (Suc n) file_index S = expand_all n file_index (S \<union> successors file_index S)"

text \<open>
  Fan-out with the mapping of symbols to files as the claim words it: every symbol is
  mapped to the symbol followed by \<open>.java\<close>.
\<close>

definition claimed_neighbor_file :: "string \<Rightarrow> string" where
  "claimed_neighbor_file neighbor_class = neighbor_class @ ''.java''"

definition claimed_next_frontier :: "file_entry dict \<Rightarrow> string set \<Rightarrow> string set \<Rightarrow> string set" where
  "claimed_next_frontier file_index expanded frontier =
     (\<Union>fname \<in> frontier.
        case map_of file_index fname of
          None \<Rightarrow> {}
        | Some info \<Rightarrow>
            {nf \<in> claimed_neighbor_file ` set (e_imports info @ e_calls info).
               nf \<in> set (keys file_index) \<and> nf \<notin> expanded})"

fun claimed_rounds :: "nat \<Rightarrow> file_entry dict \<Rightarrow> string set \<Rightarrow> string set \<Rightarrow> string set" where
  "claimed_rounds 0 file_index expanded frontier = expanded"
| "claimed_rounds (Suc n) file_index expanded frontier =
     (let nf = claimed_next_frontier file_index expanded frontier
      in claimed_rounds n file_index (expanded \<union> nf) nf)"

definition claimed_fan_out :: "string set \<Rightarrow> file_entry dict \<Rightarrow> int \<Rightarrow> string set" where
  "claimed_fan_out files file_index depth = claimed_rounds (nat depth) file_index files files"

subsection \<open>Files a patch may create\<close>


subsection \<open>Sample data\<close>

text \<open>An environment for concrete runs: the digest is only tagged, every timestamp is the
  same second, the clock of the file system advances with each write, and a set is
  iterated in sorted order.\<close>

definition patch_response :: string where
  "patch_response =
     ''FILENAME: Foo.java'' @ [CHR 0x0A] @ ''```java'' @ [CHR 0x0A] @ ''import C;'' @ [CHR 0x0A]
     @ ''class Foo {}'' @ [CHR 0x0A] @ ''```''"

definition sample_env :: env where
  "sample_env =
     \<lparr>md5 = (\<lambda>text. ''md5:'' @ text),
      timestamp = (\<lambda>n. ''20240101_120000''),
      mtime_at = (\<lambda>n. 1000 + n),
      walk = (\<lambda>d. [(''/proj'', [''Foo.java'', ''error.log'', ''pom.xml''])]),
      iter_set = (\<lambda>S. filter (\<lambda>n. n \<in> S) [''A.java'', ''B.java'', ''C.java'', ''Foo.java'']),
      cwd = ''/proj'',
      propose = (\<lambda>p. Inr patch_response)\<rparr>"

text \<open>A project with one source file, its error log and its build file.\<close>

definition foo_code :: string where
  "foo_code = ''import B;'' @ [CHR 0x0A] @ ''class Foo {}''"

definition foo_patched :: string where
  "foo_patched = ''import C;'' @ [CHR 0x0A] @ ''class Foo {}''"

definition foo_log :: string where
  "foo_log = ''java.lang.NullPointerException'' @ [CHR 0x0A]
             @ ''    at com.acme.Foo.run(Foo.java:12)''"

definition foo_world :: world where
  "foo_world =
     \<lparr>disk = [''/proj/Foo.java'' \<mapsto> (foo_code, 10),
              ''/proj/error.log'' \<mapsto> (foo_log, 20),
              ''/proj/pom.xml'' \<mapsto> (''<project/>'', 5)],
      dirs = [''/proj'' \<mapsto> 5],
      unwritable = {},
      tick = 0,
      stdout = []\<rparr>"

definition foo_index :: "file_entry dict" where
  "foo_index = [(''Foo.java'', entry_of sample_env ''/proj/Foo.java'' foo_code 10)]"

text \<open>Three files in a chain: \<open>A\<close> imports \<open>B\<close>, \<open>B\<close> imports \<open>C\<close>. The entries are the
  ones \<open>build_file_entry\<close> derives from the contents.\<close>

definition chain_index :: "file_entry dict" where
  "chain_index =
     [(''A.java'', entry_of sample_env ''/proj/A.java'' ''import B;'' 10),
      (''B.java'', entry_of sample_env ''/proj/B.java'' ''import C;'' 10),
      (''C.java'', entry_of sample_env ''/proj/C.java'' ''class C {}'' 10)]"

text \<open>A file whose import names a symbol that ends in \<open>.java\<close>, beside a file of that
  name.\<close>

definition dotted_index :: "file_entry dict" where
  "dotted_index =
     [(''A.java'', entry_of sample_env ''/proj/A.java'' ''import x.B.java;'' 10),
      (''x.B.java'', entry_of sample_env ''/proj/x.B.java'' ''class B {}'' 10)]"


definition fresh_session :: session where
  "fresh_session =
     \<lparr>st_springboot_path = Some ''/proj'',
      st_file_index = None,
      st_relevant_files = None,
      st_original_code_backup = None,
      st_original_code_path_map = None,
      st_original_code = None,
      st_fixed_code = None,
      st_original_error = None,
      st_test_failure_reason = None,
      st_decision = None,
      st_detailed_report = None,
      st_recommendations = None,
      st_failure_reasons = None,
      st_retries = Some 1\<rparr>"

definition ceiling_session :: session where
  "ceiling_session =
     fresh_session
       \<lparr>st_decision := Some (JStr ''REJECT''),
        st_retries := Some 3,
        st_original_code_backup := Some [(''Bar.java'', ''class Bar {}''), (''Foo.java'', foo_code)],
        st_original_code_path_map :=
          Some [(''Bar.java'', ''/proj/Bar.java''), (''Foo.java'', ''/proj/Foo.java'')]\<rparr>"

text \<open>The project after a patch of \<open>Foo.java\<close>, with a second file that cannot be written.\<close>

definition locked_world :: world where
  "locked_world =
     \<lparr>disk = [''/proj/Foo.java'' \<mapsto> (foo_patched, 1001),
              ''/proj/Bar.java'' \<mapsto> (''class Bar { int broken; }'', 1003)],
      dirs = [''/proj'' \<mapsto> 5],
      unwritable = {''/proj/Bar.java''},
      tick = 4,
      stdout = []\<rparr>"

text \<open>A verdict of the validation pipeline that rejects the fix, and a validator that
  returns it.\<close>

definition rejection :: validation_result where
  "rejection =
     \<lparr>r_decision = JStr ''REJECT'',
      r_detailed_report = ''The fix does not compile.'',
      r_recommendations = JList [],
      r_failure_reasons = JList [JStr ''missing import'']\<rparr>"

definition rejecting :: "string \<Rightarrow> string \<Rightarrow> string \<Rightarrow> validation_outcome" where
  "rejecting original_code fixed_code original_error = Returned rejection"

text \<open>The state after one repair attempt on the sample project, with \<open>r\<close> in the retry
  counter.\<close>

definition tested_session :: "int \<Rightarrow> session" where
  "tested_session r =
     fresh_session
       \<lparr>st_file_index := Some foo_index,
        st_relevant_files := Some foo_index,
        st_original_code_backup := Some [(''Foo.java'', foo_code)],
        st_original_code_path_map := Some [(''Foo.java'', ''/proj/Foo.java'')],
        st_original_error := Some foo_log,
        st_retries := Some r\<rparr>"

text \<open>An oracle that answers the five analysis stages and raises at every attempt of the
  final decision (call number 5).\<close>

definition failing_llm :: llm where
  "failing_llm =
     \<lparr>init_failure = None,
      attempts = (\<lambda>stage n. if stage = 5 then Failure ''503 service unavailable''
                             else Reply (JObj [(''severity'', JStr ''high'')])),
      py_str = (\<lambda>v. case v of JStr t \<Rightarrow> t | _ \<Rightarrow> ''<value>''),
      exc_text = (\<lambda>e. ''error'')\<rparr>"

text \<open>
  A response cut off inside its second block: a line of prose, a block for \<open>Foo.java\<close> with
  both fences, prose again, a bare file name as marker, an empty line, and a block that
  the end of the response leaves open. \<open>foo_index_first\<close> and \<open>foo_world_first\<close> are the
  registry and the files when the loop reaches the empty line.
\<close>

definition first_patch :: string where
  "first_patch = ''import B;'' @ [CHR 0x0A] @ ''class Foo { int x; }''"

definition truncated_response :: string where
  "truncated_response =
     ''Here is the fix.'' @ [CHR 0x0A] @ ''FILENAME: Foo.java'' @ [CHR 0x0A] @ ''```java''
     @ [CHR 0x0A] @ first_patch @ [CHR 0x0A] @ ''```'' @ [CHR 0x0A] @ ''One more change:''
     @ [CHR 0x0A] @ ''Foo.java'' @ [CHR 0x0A] @ [CHR 0x0A] @ ''```'' @ [CHR 0x0A]
     @ foo_patched"

definition foo_index_first :: "file_entry dict" where
  "foo_index_first =
     [(''Foo.java'', (entry_of sample_env ''/proj/Foo.java'' foo_code 10)
           \<lparr>e_content := first_patch, e_last_modified := 1001,
            e_checksum := ''md5:'' @ first_patch\<rparr>)]"

definition foo_world_first :: world where
  "foo_world_first =
     foo_world\<lparr>disk := (disk foo_world)
                   (''/proj/Foo.java.backup_20240101_120000'' \<mapsto> (foo_code, 10),
                    ''/proj/Foo.java'' \<mapsto> (first_patch, 1001)),
                 tick := 2,
                 stdout := [Processing ''Foo.java'', Fixed ''/proj/Foo.java'',
                            Processing ''Foo.java'']\<rparr>"

subsection \<open>What a run of the patch loop leaves\<close>









definition foo_world_patched :: world where
  "foo_world_patched =
     foo_world\<lparr>disk := (disk foo_world)
                   (''/proj/Foo.java.backup_20240101_120000'' \<mapsto> (foo_code, 10),
                    ''/proj/Foo.java'' \<mapsto> (foo_patched, 1001)),
                 tick := 2,
                 stdout := [Processing ''Foo.java'', Fixed ''/proj/Foo.java'']\<rparr>"

section \<open>Properties of fault localization\<close>

lemma successors_Un: "successors fi (S \<union> T) = successors fi S \<union> successors fi T"
  by (simp add: successors_def)

lemma successors_insert2:
  "successors fi (insert x (insert y T)) = successors fi {x} \<union> successors fi (insert y T)"
  by (simp add: successors_def)

lemma next_frontier_successors: "next_frontier fi E F = successors fi F - E"
  by (auto simp: next_frontier_def successors_def split: option.splits)

lemma fan_out_rounds_expand_all:
  assumes "F \<subseteq> E" and "successors fi (E - F) \<subseteq> E"
  shows "fan_out_rounds n fi E F = expand_all n fi E"
  using assms
proof (induction n arbitrary: E F)
  case 0
  show ?case by simp
next
  case (Suc n)
  let ?nf = "successors fi F - E"
  have split: "E = (E - F) \<union> F" using Suc.prems(1) by auto
  have "successors fi E = successors fi (E - F) \<union> successors fi F"
    using successors_Un[of fi "E - F" F] split by simp
  then have grow: "E \<union> successors fi E = E \<union> ?nf"
    using Suc.prems(2) by auto
  have diff_nf: "(E \<union> ?nf) - ?nf = E" by auto
  have "fan_out_rounds n fi (E \<union> ?nf) ?nf = expand_all n fi (E \<union> ?nf)"
  proof (rule Suc.IH)
    show "?nf \<subseteq> E \<union> ?nf" by auto
    show "successors fi ((E \<union> ?nf) - ?nf) \<subseteq> E \<union> ?nf"
      using grow diff_nf by auto
  qed
  then show ?case
    by (simp add: next_frontier_successors Let_def grow)
qed

lemma chain_entries:
  "e_imports (entry_of sample_env ''/proj/A.java'' ''import B;'' 10) = [''B'']"
  "e_calls (entry_of sample_env ''/proj/A.java'' ''import B;'' 10) = []"
  "e_imports (entry_of sample_env ''/proj/B.java'' ''import C;'' 10) = [''C'']"
  "e_calls (entry_of sample_env ''/proj/B.java'' ''import C;'' 10) = []"
  "e_imports (entry_of sample_env ''/proj/C.java'' ''class C {}'' 10) = []"
  "e_calls (entry_of sample_env ''/proj/C.java'' ''class C {}'' 10) = []"
  by (simp_all add: entry_of_def match_import_def match_call_def match_new_def
        match_member_def line_start_def is_word_def is_space_def import_char_def)

lemma chain_successors:
  "successors chain_index {''A.java''} = {''B.java''}"
  "successors chain_index {''B.java''} = {''C.java''}"
  "successors chain_index {''C.java''} = {}"
  by (auto simp: successors_def chain_index_def chain_entries keys_def neighbor_file_def
        endswith_def)

text \<open>
  C6 (amended). \<open>fan_out\<close> performs \<open>depth\<close> rounds of expansion over the imports and calls
  of the files, and expanding only the frontier added in the previous round gives the
  same set as expanding the whole accumulated set in every round. A symbol is mapped to
  the symbol followed by \<open>.java\<close>, except that a symbol that already ends in \<open>.java\<close> is
  taken as it is; only registry members not yet visited are added. For the registry of
  three files in which \<open>A\<close> imports \<open>B\<close> and \<open>B\<close> imports \<open>C\<close>, depth 0 gives \<open>{A}\<close>,
  depth 1 gives \<open>{A, B}\<close> and depth 2 gives \<open>{A, B, C}\<close>.
\<close>

theorem fan_out_expands_depth_rounds:
  "fan_out files file_index depth = expand_all (nat depth) file_index files
   \<and> fan_out {''A.java''} chain_index 0 = {''A.java''}
   \<and> fan_out {''A.java''} chain_index 1 = {''A.java'', ''B.java''}
   \<and> fan_out {''A.java''} chain_index 2 = {''A.java'', ''B.java'', ''C.java''}"
proof -
  have gen: "\<And>fs fi d. fan_out fs fi d = expand_all (nat d) fi fs"
    unfolding fan_out_def by (rule fan_out_rounds_expand_all) (simp_all add: successors_def)
  have two: "nat 2 = Suc (Suc 0)" and one: "nat 1 = Suc 0" by simp_all
  have d0: "fan_out {''A.java''} chain_index 0 = {''A.java''}"
    by (simp add: gen)
  have d1: "fan_out {''A.java''} chain_index 1 = {''A.java'', ''B.java''}"
    by (auto simp: gen one chain_successors)
  have d2: "fan_out {''A.java''} chain_index 2 = {''A.java'', ''B.java'', ''C.java''}"
    unfolding gen two by (auto simp: successors_insert2 chain_successors)
  show ?thesis using gen d0 d1 d2 by simp
qed

theorem fan_out_expands_depth_rounds_witness:
  "fan_out {''A.java''} dotted_index 1 = expand_all (Suc 0) dotted_index {''A.java''}"
  using fan_out_expands_depth_rounds[of "{''A.java''}" dotted_index 1] by simp

text \<open>
  C6 as stated fails: in a registry where \<open>A.java\<close> imports the symbol \<open>x.B.java\<close> and a
  file \<open>x.B.java\<close> exists, the code adds \<open>x.B.java\<close> in one round, while mapping every
  symbol to the symbol followed by \<open>.java\<close> adds nothing.
\<close>

theorem fan_out_symbol_mapping_counterexample:
  "fan_out {''A.java''} dotted_index 1 = {''A.java'', ''x.B.java''}
   \<and> claimed_fan_out {''A.java''} dotted_index 1 = {''A.java''}"
proof -
  have imp: "e_imports (entry_of sample_env ''/proj/A.java'' ''import x.B.java;'' 10)
               = [''x.B.java'']"
    and cal: "e_calls (entry_of sample_env ''/proj/A.java'' ''import x.B.java;'' 10)
               = [''x'', ''B'']"
    by (simp_all add: entry_of_def match_import_def match_call_def match_new_def
          match_member_def line_start_def is_word_def is_space_def import_char_def)
  have one: "nat 1 = Suc 0" by simp
  have "fan_out {''A.java''} dotted_index 1 = {''A.java'', ''x.B.java''}"
    unfolding fan_out_def one
    by (auto simp: next_frontier_def dotted_index_def imp cal keys_def neighbor_file_def
          endswith_def)
  moreover have "claimed_fan_out {''A.java''} dotted_index 1 = {''A.java''}"
    unfolding claimed_fan_out_def one
    by (auto simp: claimed_next_frontier_def dotted_index_def imp cal keys_def
          claimed_neighbor_file_def)
  ultimately show ?thesis by simp
qed

text \<open>
  C7 (amended). For every error text from which no stack-frame file name is extracted,
  \<open>get_relevant_files\<close> returns the entire registry, whatever the depth; the context
  handed to the proposer is then empty only if the registry itself has no file.
\<close>

theorem localization_fails_open:
  assumes "extract_filenames_from_error error_text = {}"
  shows "get_relevant_files ev error_text file_index depth = file_index
         \<and> (get_relevant_files ev error_text file_index depth = [] \<longleftrightarrow> file_index = [])"
  using assms by (simp add: get_relevant_files_def)

theorem localization_fails_open_witness:
  "extract_filenames_from_error ''NullPointerException: no frames here'' = {}
   \<and> get_relevant_files sample_env ''NullPointerException: no frames here'' chain_index 0
       = chain_index"
proof -
  have h: "extract_filenames_from_error ''NullPointerException: no frames here'' = {}"
    by (simp add: extract_filenames_from_error_def match_frame_def word_start_def
          is_word_def is_space_def)
  show ?thesis using h localization_fails_open[OF h, of sample_env chain_index 0] by simp
qed

text \<open>
  C7 as stated fails on its last clause: with an empty registry and an error text without
  stack frames the proposer is handed an empty context.
\<close>

theorem empty_registry_counterexample:
  "extract_filenames_from_error ''boom'' = {}
   \<and> get_relevant_files sample_env ''boom'' [] 2 = []"
  by (simp add: get_relevant_files_def extract_filenames_from_error_def match_frame_def
        word_start_def is_word_def)

section \<open>Properties of patch application\<close>








lemmas text_defs = strip_def is_space_def is_marker_def is_fence_def closes_block_def
  marker_name_def endswith_def match_key_def keys_def lower_def lower_char_def basename_def

lemmas regex_defs = match_frame_def match_import_def match_call_def match_new_def
  match_member_def match_class_def word_start_def line_start_def is_word_def is_digit_def
  import_char_def frame_char_def

lemma patch_lines:
  "split_nl patch_response = [''FILENAME: Foo.java'', ''```java'', ''import C;'', ''class Foo {}'', ''```'']"
  by (simp add: patch_response_def)

lemma foo_entry:
  "entry_of sample_env ''/proj/Foo.java'' foo_code 10
   = \<lparr>e_path = ''/proj/Foo.java'', e_content = foo_code, e_class = ''Foo'',
      e_imports = [''B''], e_calls = [], e_last_modified = 10,
      e_checksum = ''md5:'' @ foo_code\<rparr>"
  by (simp add: entry_of_def foo_code_def regex_defs is_space_def sample_env_def)

lemma foo_seeds: "extract_filenames_from_error foo_log = {''Foo.java''}"
  by (simp add: extract_filenames_from_error_def foo_log_def regex_defs is_space_def)

lemma foo_relevant: "get_relevant_files sample_env foo_log foo_index 2 = foo_index"
proof -
  have two: "nat 2 = Suc (Suc 0)" by simp
  have nf: "\<And>E. next_frontier foo_index E {''Foo.java''} = {}"
    by (auto simp: next_frontier_def foo_index_def foo_entry keys_def neighbor_file_def
          endswith_def)
  have nf0: "\<And>E. next_frontier foo_index E {} = {}" by (simp add: next_frontier_def)
  have fo: "fan_out {''Foo.java''} foo_index 2 = {''Foo.java''}"
    unfolding fan_out_def two by (simp add: nf nf0)
  show ?thesis
    unfolding get_relevant_files_def foo_seeds Let_def fo
    by (simp add: sample_env_def List.map_filter_def foo_index_def)
qed

lemma patch_run:
  "apply_fixes_to_code sample_env patch_response foo_index foo_index foo_world
   = (None,
      [(''Foo.java'', (entry_of sample_env ''/proj/Foo.java'' foo_code 10)
           \<lparr>e_content := foo_patched, e_last_modified := 1001,
            e_checksum := ''md5:'' @ foo_patched\<rparr>)],
      foo_world\<lparr>disk := (disk foo_world)
                   (''/proj/Foo.java.backup_20240101_120000'' \<mapsto> (foo_code, 10),
                    ''/proj/Foo.java'' \<mapsto> (foo_patched, 1001)),
                 tick := 2,
                 stdout := [Processing ''Foo.java'', Fixed ''/proj/Foo.java'']\<rparr>)"
  unfolding apply_fixes_to_code_def patch_lines
  by (simp add: text_defs foo_index_def print_def foo_world_def apply_block_def
        create_backup_def write_file_def getmtime_def backup_path_def sample_env_def
        entry_of_def foo_patched_def Let_def)

lemma read_without_cr: "CHR 0x0D \<notin> set t \<Longrightarrow> universal_newlines t = t"
  by (induction t rule: universal_newlines.induct) auto

lemma foo_read: "read_text foo_world ''/proj/Foo.java'' = Inr foo_code"
proof -
  have "universal_newlines foo_code = foo_code"
    by (rule read_without_cr) (simp add: foo_code_def)
  then show ?thesis by (simp add: read_text_def foo_world_def)
qed

lemma foo_build: "build_file_index sample_env foo_world ''/proj'' = Inr foo_index"
proof -
  have m: "getmtime foo_world ''/proj/Foo.java'' = Inr 10"
    by (simp add: getmtime_def foo_world_def)
  have p: "path_join ''/proj'' ''Foo.java'' = ''/proj/Foo.java''"
    by (simp add: path_join_def endswith_def)
  have b: "basename ''/proj/Foo.java'' = ''Foo.java''"
    by (simp add: basename_def)
  show ?thesis
    by (simp add: build_file_index_def find_all_java_files_def sample_env_def endswith_def
          p b build_file_entry_def foo_read m foo_index_def)
qed

lemma foo_log_path: "find_error_log sample_env ''/proj'' = Inr ''/proj/error.log''"
  by (simp add: find_error_log_def sample_env_def path_join_def endswith_def)

lemma foo_project_dir: "find_project_dir 10 foo_world ''/proj/error.log'' = ''/proj''"
proof -
  have step: "\<And>n w d. exists w (path_join (dirname d) ''pom.xml'')
                \<Longrightarrow> find_project_dir (Suc n) w d = dirname d"
    by (simp add: Let_def)
  have ten: "(10::nat) = Suc 9" by simp
  have "exists foo_world (path_join (dirname ''/proj/error.log'') ''pom.xml'')"
    by (simp add: dirname_def path_join_def endswith_def exists_def foo_world_def)
  from step[OF this, of 9] have "find_project_dir 10 foo_world ''/proj/error.log'' = dirname ''/proj/error.log''"
    unfolding ten[symmetric] .
  then show ?thesis by (simp add: dirname_def)
qed

lemma entry_of_path: "e_path (entry_of ev p c m) = p"
  by (simp add: entry_of_def)

lemma foo_fixer:
  "node_fixer sample_env fresh_session foo_world
   = (Inr (fresh_session
        \<lparr>st_file_index := Some [(''Foo.java'', (entry_of sample_env ''/proj/Foo.java'' foo_code 10)
           \<lparr>e_content := foo_patched, e_last_modified := 1001,
            e_checksum := ''md5:'' @ foo_patched\<rparr>)],
         st_original_code_backup := Some [(''Foo.java'', foo_patched)],
         st_original_code_path_map := Some [(''Foo.java'', ''/proj/Foo.java'')],
         st_relevant_files := Some [(''Foo.java'', (entry_of sample_env ''/proj/Foo.java'' foo_code 10)
           \<lparr>e_content := foo_patched, e_last_modified := 1001,
            e_checksum := ''md5:'' @ foo_patched\<rparr>)],
         st_original_code := Some (file_banner ''Foo.java'' foo_patched),
         st_fixed_code := Some (file_banner ''Foo.java'' foo_patched),
         st_original_error := Some foo_log\<rparr>),
      foo_world\<lparr>disk := (disk foo_world)
                   (''/proj/Foo.java.backup_20240101_120000'' \<mapsto> (foo_code, 10),
                    ''/proj/Foo.java'' \<mapsto> (foo_patched, 1001)),
                 tick := 2,
                 stdout := [Processing ''Foo.java'', Fixed ''/proj/Foo.java'']\<rparr>)"
proof -
  have "universal_newlines foo_log = foo_log"
    by (rule read_without_cr) (simp add: foo_log_def)
  then have log: "read_text foo_world ''/proj/error.log'' = Inr foo_log"
    by (simp add: read_text_def foo_world_def)
  have short: "drop (length foo_log - 5000) foo_log = foo_log"
    by (simp add: foo_log_def)
  have short': "\<And>x. drop (length foo_log - x) foo_log = drop (length foo_log - x) foo_log" ..
  have orc: "\<And>p. propose sample_env p = Inr patch_response"
    by (simp add: sample_env_def)
  have sp: "st_springboot_path fresh_session = Some ''/proj''"
    and fi: "st_file_index fresh_session = None"
    and bk: "st_original_code_backup fresh_session = None"
    by (simp_all add: fresh_session_def)
  show ?thesis
    unfolding node_fixer_def
    by (simp add: sp fi bk foo_log_path log short foo_project_dir foo_build foo_relevant orc
          patch_run Let_def)
       (simp add: foo_index_def keys_def short entry_of_path)
qed





text \<open>
  C3 fails on the code. The registry \<open>foo_index\<close> holds \<open>Foo.java\<close> with the content
  \<open>import B; class Foo {}\<close>; the response replaces it by \<open>import C; class Foo {}\<close>. After
  the application the entry has the new content and the checksum of the new content, but
  still the imports of the old content, \<open>[B]\<close>, where \<open>build_file_entry\<close> derives \<open>[C]\<close> from
  the new content.
\<close>

theorem patched_entry_keeps_old_imports:
  "fst (apply_fixes_to_code sample_env patch_response foo_index foo_index foo_world) = None
   \<and> map_option e_content
        (map_of (fst (snd (apply_fixes_to_code sample_env patch_response foo_index foo_index
                             foo_world))) ''Foo.java'') = Some foo_patched
   \<and> map_option e_checksum
        (map_of (fst (snd (apply_fixes_to_code sample_env patch_response foo_index foo_index
                             foo_world))) ''Foo.java'') = Some (md5 sample_env foo_patched)
   \<and> map_option e_imports
        (map_of (fst (snd (apply_fixes_to_code sample_env patch_response foo_index foo_index
                             foo_world))) ''Foo.java'') = Some [''B'']
   \<and> e_imports (entry_of sample_env ''/proj/Foo.java'' foo_patched 1001) = [''C'']"
proof -
  have new: "e_imports (entry_of sample_env ''/proj/Foo.java'' foo_patched 1001) = [''C'']"
    by (simp add: entry_of_def foo_patched_def regex_defs is_space_def)
  have old: "e_imports (entry_of sample_env ''/proj/Foo.java'' foo_code 10) = [''B'']"
    by (simp add: foo_entry)
  show ?thesis
    unfolding patch_run by (simp add: new old) (simp add: sample_env_def)
qed

text \<open>
  C1 fails on the code. In a first attempt on a project whose \<open>Foo.java\<close> holds
  \<open>import B; class Foo {}\<close>, with no backup in the state, \<open>node_fixer\<close> applies the patch and
  takes the backup from the registry afterwards: the backup maps \<open>Foo.java\<close> to the
  patched content, not to the content the file had before the change.
\<close>

theorem backup_holds_patched_content:
  "disk foo_world ''/proj/Foo.java'' = Some (foo_code, 10)
   \<and> st_original_code_backup fresh_session = None
   \<and> \<not> isl (fst (node_fixer sample_env fresh_session foo_world))
   \<and> st_original_code_backup (projr (fst (node_fixer sample_env fresh_session foo_world)))
       = Some [(''Foo.java'', foo_patched)]
   \<and> foo_patched \<noteq> foo_code"
  unfolding foo_fixer
  by (simp add: foo_world_def fresh_session_def foo_patched_def foo_code_def)

subsection \<open>A block without its closing fence\<close>

lemma skip_prose:
  "\<forall>r \<in> set prose. \<not> is_marker (strip r) \<and> \<not> is_fence (strip r)
   \<Longrightarrow> apply_lines ev sf (prose @ ls) cur fi w = apply_lines ev sf ls cur fi w"
  by (induction prose) (simp_all add: Let_def)

lemma marker_step:
  "is_marker (strip line)
   \<Longrightarrow> apply_lines ev sf (line # rest) cur fi w
       = apply_lines ev sf rest (Some (marker_name (strip line))) fi
           (print (Processing (marker_name (strip line))) w)"
  by (simp add: Let_def)

lemma closed_block_step:
  assumes "\<not> is_marker (strip fence)" "is_fence (strip fence)"
    and "\<forall>r \<in> set code. \<not> closes_block r" and "closes_block closing"
    and "match_key sf name = Some k" "k \<noteq> []"
  shows "apply_lines ev sf (fence # code @ closing # rest) (Some name) fi w
         = (case apply_block ev sf k (join [CHR 0x0A] code) fi w of
              (err, fi', w') \<Rightarrow>
                (case err of Some e \<Rightarrow> (Some e, fi', w')
                 | None \<Rightarrow> apply_lines ev sf rest None fi' w'))"
proof -
  have tw: "takeWhile (\<lambda>r. \<not> closes_block r) (code @ closing # rest) = code"
    using assms(3,4) by (simp add: takeWhile_append2 takeWhile_tail)
  have dw: "dropWhile (\<lambda>r. \<not> closes_block r) (code @ closing # rest) = closing # rest"
    using assms(3,4) by (simp add: dropWhile_append2)
  show ?thesis using assms(1,2,5,6) by (simp add: Let_def tw dw)
qed

lemma open_block_step:
  assumes "\<not> is_marker (strip fence)" "is_fence (strip fence)"
    and "\<forall>r \<in> set body. \<not> closes_block r"
    and "match_key sf name = Some k" "k \<noteq> []"
  shows "apply_lines ev sf (fence # body) (Some name) fi w
         = (case apply_block ev sf k (join [CHR 0x0A] body) fi w of
              (err, fi', w') \<Rightarrow> (err, fi', w'))"
proof -
  have tw: "takeWhile (\<lambda>r. \<not> closes_block r) body = body"
    using assms(3) by (simp add: takeWhile_eq_all_conv)
  have dw: "dropWhile (\<lambda>r. \<not> closes_block r) body = []"
    using assms(3) by simp
  show ?thesis using assms(1,2,4,5)
    by (simp add: Let_def tw dw split: prod.splits option.splits)
qed

lemma truncated_lines:
  "split_nl truncated_response
   = [''Here is the fix.'', ''FILENAME: Foo.java'', ''```java'', ''import B;'',
      ''class Foo { int x; }'', ''```'', ''One more change:'', ''Foo.java'', '''', ''```'',
      ''import C;'', ''class Foo {}'']"
  by (simp add: truncated_response_def first_patch_def foo_patched_def)

text \<open>
  C10. Wherever the loop stands, with whatever it has done before: when it meets a fence
  line with a pending file name, possibly after lines that are neither markers nor
  fences, and no later line starts with a fence (the closing fence is missing), and the
  name matches the key \<open>k\<close> of the working set whose file exists and can be written, the
  block is applied all the same. The backup copy is made, all remaining lines joined by
  line feeds become the content of the file and of the registry entry, and no exception
  is raised. Wherever a line that, stripped, ends in \<open>.java\<close> stands, possibly after lines
  that are neither markers nor fences, it sets the pending file name: the prefix
  \<open>FILENAME:\<close> is not needed, and a line without a colon is taken whole as the name.
\<close>

theorem unterminated_block_applied:
  assumes between: "\<forall>r \<in> set between. \<not> is_marker (strip r) \<and> \<not> is_fence (strip r)"
    and fc: "\<not> is_marker (strip fence)" "is_fence (strip fence)"
    and open_end: "\<forall>r \<in> set body. \<not> closes_block r"
    and key: "match_key source_files name = Some k" "k \<noteq> []"
    and sinfo: "map_of source_files k = Some sinfo"
    and old: "map_of file_index k = Some old"
    and ex: "disk w (e_path sinfo) = Some f"
    and wr: "e_path sinfo \<notin> unwritable w" "dirs w (e_path sinfo) = None"
      "backup_path (e_path sinfo) (timestamp ev (tick w)) \<notin> unwritable w"
      "dirs w (backup_path (e_path sinfo) (timestamp ev (tick w))) = None"
    and before: "\<forall>r \<in> set before. \<not> is_marker (strip r) \<and> \<not> is_fence (strip r)"
    and mk: "endswith ''.java'' (strip line)"
  shows "apply_lines ev source_files (between @ fence # body) (Some name) file_index w
         = (None,
            AList.update k
              (old\<lparr>e_content := join [CHR 0x0A] body,
                  e_last_modified := mtime_at ev (Suc (tick w)),
                  e_checksum := md5 ev (join [CHR 0x0A] body)\<rparr>)
              file_index,
            w\<lparr>disk := (disk w)
                  (backup_path (e_path sinfo) (timestamp ev (tick w)) \<mapsto> f,
                   e_path sinfo \<mapsto> (join [CHR 0x0A] body, mtime_at ev (Suc (tick w)))),
              tick := Suc (Suc (tick w)),
              stdout := stdout w @ [Fixed (e_path sinfo)]\<rparr>)
         \<and> apply_lines ev source_files (before @ line # rest) cur fi0 w0
           = apply_lines ev source_files rest (Some (marker_name (strip line))) fi0
               (print (Processing (marker_name (strip line))) w0)
         \<and> (CHR '':'' \<notin> set (strip line) \<longrightarrow> marker_name (strip line) = strip line)"
proof -
  have blk: "apply_block ev source_files k (join [CHR 0x0A] body) file_index w
             = (None,
                AList.update k
                  (old\<lparr>e_content := join [CHR 0x0A] body,
                      e_last_modified := mtime_at ev (Suc (tick w)),
                      e_checksum := md5 ev (join [CHR 0x0A] body)\<rparr>)
                  file_index,
                w\<lparr>disk := (disk w)
                      (backup_path (e_path sinfo) (timestamp ev (tick w)) \<mapsto> f,
                       e_path sinfo \<mapsto> (join [CHR 0x0A] body, mtime_at ev (Suc (tick w)))),
                  tick := Suc (Suc (tick w)),
                  stdout := stdout w @ [Fixed (e_path sinfo)]\<rparr>)"
    using sinfo old ex wr
    by (simp add: apply_block_def create_backup_def write_file_def getmtime_def print_def
          Let_def)
  have one: "apply_lines ev source_files (between @ fence # body) (Some name) file_index w
             = apply_lines ev source_files (fence # body) (Some name) file_index w"
    by (rule skip_prose[OF between])
  have two: "apply_lines ev source_files (fence # body) (Some name) file_index w
             = (case apply_block ev source_files k (join [CHR 0x0A] body) file_index w of
                  (err, fi', w') \<Rightarrow> (err, fi', w'))"
    by (rule open_block_step[OF fc open_end key])
  have m: "is_marker (strip line)" using mk by (simp add: is_marker_def)
  have three: "apply_lines ev source_files (before @ line # rest) cur fi0 w0
               = apply_lines ev source_files rest (Some (marker_name (strip line))) fi0
                   (print (Processing (marker_name (strip line))) w0)"
    unfolding skip_prose[OF before] by (rule marker_step[OF m])
  show ?thesis
    unfolding one two blk using three by (simp add: marker_name_def)
qed

theorem unterminated_block_applied_witness:
  "\<not> is_marker (strip '''') \<and> \<not> is_fence (strip '''')
   \<and> \<not> is_marker (strip ''```'') \<and> is_fence (strip ''```'')
   \<and> \<not> closes_block ''import C;'' \<and> \<not> closes_block ''class Foo {}''
   \<and> \<not> is_marker (strip ''One more change:'') \<and> \<not> is_fence (strip ''One more change:'')
   \<and> endswith ''.java'' (strip ''Foo.java'')
   \<and> \<not> startswith ''FILENAME:'' (strip ''Foo.java'')
   \<and> split_nl truncated_response
     = [''Here is the fix.'', ''FILENAME: Foo.java'', ''```java'', ''import B;'',
        ''class Foo { int x; }'', ''```'']
       @ [''One more change:''] @ ''Foo.java'' # [''''] @ ''```'' # [''import C;'', ''class Foo {}'']
   \<and> fst (apply_fixes_to_code sample_env truncated_response foo_index foo_index foo_world) = None
   \<and> disk (snd (snd (apply_fixes_to_code sample_env truncated_response foo_index foo_index
                         foo_world))) ''/proj/Foo.java'' = Some (foo_patched, 1003)
   \<and> disk (snd (snd (apply_fixes_to_code sample_env truncated_response foo_index foo_index
                         foo_world))) ''/proj/Foo.java.backup_20240101_120000''
       = Some (first_patch, 1001)
   \<and> map_option e_content
       (map_of (fst (snd (apply_fixes_to_code sample_env truncated_response foo_index foo_index
                            foo_world))) ''Foo.java'') = Some foo_patched"
proof -
  let ?e = "(entry_of sample_env ''/proj/Foo.java'' foo_code 10)
              \<lparr>e_content := first_patch, e_last_modified := 1001,
               e_checksum := ''md5:'' @ first_patch\<rparr>"
  let ?body = "[''import C;'', ''class Foo {}'']"
  have between: "\<forall>r \<in> set ['''']. \<not> is_marker (strip r) \<and> \<not> is_fence (strip r)"
    and before: "\<forall>r \<in> set [''One more change:'']. \<not> is_marker (strip r) \<and> \<not> is_fence (strip r)"
    and fc: "\<not> is_marker (strip ''```'')" "is_fence (strip ''```'')"
    and open_end: "\<forall>r \<in> set ?body. \<not> closes_block r"
    and mk: "endswith ''.java'' (strip ''Foo.java'')"
    and bare: "\<not> startswith ''FILENAME:'' (strip ''Foo.java'')"
    by (simp_all add: text_defs)
  have key: "match_key foo_index ''Foo.java'' = Some ''Foo.java''" "''Foo.java'' \<noteq> []"
    by (simp_all add: text_defs foo_index_def)
  have sinfo: "map_of foo_index ''Foo.java''
               = Some (entry_of sample_env ''/proj/Foo.java'' foo_code 10)"
    by (simp add: foo_index_def)
  have old: "map_of foo_index_first ''Foo.java'' = Some ?e"
    by (simp add: foo_index_first_def)
  have ex: "disk foo_world_first (e_path (entry_of sample_env ''/proj/Foo.java'' foo_code 10))
            = Some (first_patch, 1001)"
    by (simp add: entry_of_path foo_world_first_def)
  have wr: "e_path (entry_of sample_env ''/proj/Foo.java'' foo_code 10) \<notin> unwritable foo_world_first"
    "dirs foo_world_first (e_path (entry_of sample_env ''/proj/Foo.java'' foo_code 10)) = None"
    "backup_path (e_path (entry_of sample_env ''/proj/Foo.java'' foo_code 10))
       (timestamp sample_env (tick foo_world_first)) \<notin> unwritable foo_world_first"
    "dirs foo_world_first
       (backup_path (e_path (entry_of sample_env ''/proj/Foo.java'' foo_code 10))
          (timestamp sample_env (tick foo_world_first))) = None"
    by (simp_all add: entry_of_path foo_world_first_def foo_world_def backup_path_def)
  note t = unterminated_block_applied[OF between fc open_end key sinfo old ex wr before mk]
  have prefix: "apply_lines sample_env foo_index (split_nl truncated_response) None foo_index
                  foo_world
                = apply_lines sample_env foo_index
                    ([''One more change:''] @ ''Foo.java'' # [''''] @ ''```'' # ?body) None
                    foo_index_first (foo_world_first\<lparr>stdout := [Processing ''Foo.java'',
                                                                Fixed ''/proj/Foo.java'']\<rparr>)"
  proof -
    have s1: "apply_lines sample_env foo_index (split_nl truncated_response) None foo_index
                foo_world
              = apply_lines sample_env foo_index
                  (''```java'' # [''import B;'', ''class Foo { int x; }''] @ ''```''
                     # ([''One more change:''] @ ''Foo.java'' # [''''] @ ''```'' # ?body))
                  (Some ''Foo.java'') foo_index (print (Processing ''Foo.java'') foo_world)"
      unfolding truncated_lines
      using skip_prose[of "[''Here is the fix.'']" sample_env foo_index]
        marker_step[of "''FILENAME: Foo.java''" sample_env foo_index]
      by (simp add: text_defs)
    have blk: "apply_block sample_env foo_index ''Foo.java''
                 (join [CHR 0x0A] [''import B;'', ''class Foo { int x; }'']) foo_index
                 (print (Processing ''Foo.java'') foo_world)
               = (None, foo_index_first,
                  foo_world_first\<lparr>stdout := [Processing ''Foo.java'',
                                              Fixed ''/proj/Foo.java'']\<rparr>)"
      by (simp add: apply_block_def foo_index_def entry_of_path create_backup_def
            write_file_def getmtime_def print_def backup_path_def sample_env_def foo_world_def
            foo_index_first_def foo_world_first_def first_patch_def Let_def)
    have c: "\<not> is_marker (strip ''```java'')" "is_fence (strip ''```java'')"
      "\<forall>r \<in> set [''import B;'', ''class Foo { int x; }'']. \<not> closes_block r"
      "closes_block ''```''"
      by (simp_all add: text_defs)
    show ?thesis
      unfolding s1 closed_block_step[OF c key] blk by simp
  qed
  have "apply_lines sample_env foo_index
          ([''One more change:''] @ ''Foo.java'' # [''''] @ ''```'' # ?body) None
          foo_index_first (foo_world_first\<lparr>stdout := [Processing ''Foo.java'',
                                                      Fixed ''/proj/Foo.java'']\<rparr>)
        = apply_lines sample_env foo_index ([''''] @ ''```'' # ?body) (Some ''Foo.java'')
            foo_index_first foo_world_first"
    unfolding t[THEN conjunct2, THEN conjunct1]
    using t[THEN conjunct2, THEN conjunct2] bare
    by (simp add: print_def foo_world_first_def text_defs)
  then have run: "apply_fixes_to_code sample_env truncated_response foo_index foo_index foo_world
        = (None,
            AList.update ''Foo.java''
              (?e\<lparr>e_content := join [CHR 0x0A] ?body,
                  e_last_modified := mtime_at sample_env (Suc (tick foo_world_first)),
                  e_checksum := md5 sample_env (join [CHR 0x0A] ?body)\<rparr>)
              foo_index_first,
            foo_world_first\<lparr>disk := (disk foo_world_first)
                  (backup_path (e_path (entry_of sample_env ''/proj/Foo.java'' foo_code 10))
                     (timestamp sample_env (tick foo_world_first)) \<mapsto> (first_patch, 1001),
                   e_path (entry_of sample_env ''/proj/Foo.java'' foo_code 10)
                     \<mapsto> (join [CHR 0x0A] ?body, mtime_at sample_env (Suc (tick foo_world_first)))),
              tick := Suc (Suc (tick foo_world_first)),
              stdout := stdout foo_world_first
                        @ [Fixed (e_path (entry_of sample_env ''/proj/Foo.java'' foo_code 10))]\<rparr>)"
    unfolding apply_fixes_to_code_def prefix t[THEN conjunct1] .
  show ?thesis
    unfolding run
    using between before fc open_end mk bare truncated_lines
    by (simp add: entry_of_path backup_path_def sample_env_def foo_world_first_def
          foo_index_first_def foo_patched_def)
qed

section \<open>Properties of the rollback\<close>

lemma restore_step:
  "\<exists>w1. restore_items ev pm ((f, c) # items) w = restore_items ev pm items w1
        \<and> unwritable w1 = unwritable w \<and> dirs w1 = dirs w
        \<and> (\<forall>p. map_of pm f \<noteq> Some p \<longrightarrow> disk w1 p = disk w p)
        \<and> set (stdout w) \<subseteq> set (stdout w1)"
proof (cases "map_of pm f")
  case None
  then show ?thesis by auto
next
  case (Some q)
  show ?thesis
  proof (cases "q = []")
    case True
    then show ?thesis using Some by auto
  next
    case False
    show ?thesis
    proof (cases "write_file ev w q c")
      case (Inl e)
      then have "restore_items ev pm ((f, c) # items) w
                 = restore_items ev pm items (print (FailedRestore f) w)"
        using Some False by simp
      then show ?thesis by (auto simp: print_def)
    next
      case (Inr w1)
      then have w1: "w1 = w\<lparr>disk := (disk w)(q \<mapsto> (c, mtime_at ev (tick w))),
                              tick := Suc (tick w)\<rparr>"
        by (auto simp: write_file_def split: if_splits)
      have "restore_items ev pm ((f, c) # items) w
            = restore_items ev pm items (print (Restored f) w1)"
        using Some False Inr by simp
      then show ?thesis using Some by (auto simp: print_def w1)
    qed
  qed
qed

lemma restore_items_untouched:
  "\<forall>(f, c) \<in> set items. map_of pm f \<noteq> Some p
   \<Longrightarrow> disk (restore_items ev pm items w) p = disk w p"
proof (induction items arbitrary: w)
  case Nil
  show ?case by simp
next
  case (Cons item items)
  obtain f c where item: "item = (f, c)" by (cases item) auto
  from restore_step[of ev pm f c items w] obtain w1 where
    w1: "restore_items ev pm ((f, c) # items) w = restore_items ev pm items w1"
    "\<forall>p. map_of pm f \<noteq> Some p \<longrightarrow> disk w1 p = disk w p" by blast
  have "disk (restore_items ev pm items w1) p = disk w1 p"
    using Cons.IH[of w1] Cons.prems by simp
  moreover have "disk w1 p = disk w p" using w1(2) Cons.prems item by auto
  ultimately show ?case using w1(1) item by simp
qed

lemma restore_items_stdout:
  "set (stdout w) \<subseteq> set (stdout (restore_items ev pm items w))"
proof (induction items arbitrary: w)
  case Nil
  show ?case by simp
next
  case (Cons item items)
  obtain f c where item: "item = (f, c)" by (cases item) auto
  from restore_step[of ev pm f c items w] obtain w1 where
    w1: "restore_items ev pm ((f, c) # items) w = restore_items ev pm items w1"
    "set (stdout w) \<subseteq> set (stdout w1)" by blast
  show ?case using Cons.IH[of w1] w1 item by auto
qed

lemma restore_items_restores:
  assumes "distinct (map fst items)"
    and "\<forall>f g q. map_of pm f = Some q \<and> map_of pm g = Some q \<longrightarrow> f = g"
    and "(f, c) \<in> set items" and "map_of pm f = Some p" and "p \<noteq> []"
    and "p \<notin> unwritable w" and "dirs w p = None"
  shows "map_option fst (disk (restore_items ev pm items w) p) = Some c"
  using assms
proof (induction items arbitrary: w)
  case Nil
  then show ?case by simp
next
  case (Cons item items)
  obtain g d where item: "item = (g, d)" by (cases item) auto
  show ?case
  proof (cases "g = f")
    case True
    then have dc: "d = c" using Cons.prems(1,3) item by (auto simp: image_iff)
    have others: "\<forall>(h, e) \<in> set items. map_of pm h \<noteq> Some p"
    proof clarify
      fix h e assume h: "(h, e) \<in> set items" "map_of pm h = Some p"
      then have "h = f" using Cons.prems(2,4) by blast
      moreover have "f \<notin> fst ` set items" using Cons.prems(1) item True by simp
      ultimately show False using h(1) by (auto simp: image_iff)
    qed
    obtain w1 where w1: "write_file ev w p c = Inr w1" "disk w1 p = Some (c, mtime_at ev (tick w))"
      using Cons.prems(6,7) by (simp add: write_file_def)
    have "restore_items ev pm (item # items) w
          = restore_items ev pm items (print (Restored f) w1)"
      using item True dc Cons.prems(4,5) w1 by simp
    then show ?thesis
      using restore_items_untouched[OF others, of ev "print (Restored f) w1"] w1(2)
      by (simp add: print_def)
  next
    case False
    then have mem: "(f, c) \<in> set items" using Cons.prems(3) item by auto
    have dist: "distinct (map fst items)" using Cons.prems(1) by simp
    have step: "\<exists>w1. restore_items ev pm (item # items) w = restore_items ev pm items w1
                     \<and> unwritable w1 = unwritable w \<and> dirs w1 = dirs w"
      using restore_step[of ev pm g d items w] item by blast
    then obtain w1 where w1: "restore_items ev pm (item # items) w = restore_items ev pm items w1"
      "unwritable w1 = unwritable w" "dirs w1 = dirs w" by blast
    have "map_option fst (disk (restore_items ev pm items w1) p) = Some c"
      using Cons.IH[OF dist Cons.prems(2) mem Cons.prems(4,5)] Cons.prems(6,7) w1(2,3) by simp
    then show ?thesis using w1(1) by simp
  qed
qed

lemma restore_items_reports:
  assumes "(f, c) \<in> set items" and "map_of pm f = Some p" and "p \<noteq> []"
    and "p \<in> unwritable w"
  shows "FailedRestore f \<in> set (stdout (restore_items ev pm items w))"
  using assms
proof (induction items arbitrary: w)
  case Nil
  then show ?case by simp
next
  case (Cons item items)
  obtain g d where item: "item = (g, d)" by (cases item) auto
  show ?case
  proof (cases "item = (f, c)")
    case True
    have "write_file ev w p c = Inl (PermissionError p)"
      using Cons.prems(4) by (simp add: write_file_def)
    then have "restore_items ev pm (item # items) w
               = restore_items ev pm items (print (FailedRestore f) w)"
      using True Cons.prems(2,3) by simp
    then show ?thesis
      using restore_items_stdout[of "print (FailedRestore f) w" ev pm items]
      by (auto simp: print_def)
  next
    case False
    then have mem: "(f, c) \<in> set items" using Cons.prems(1) by auto
    have step: "\<exists>w1. restore_items ev pm (item # items) w = restore_items ev pm items w1
                     \<and> unwritable w1 = unwritable w"
      using restore_step[of ev pm g d items w] item by blast
    then obtain w1 where w1: "restore_items ev pm (item # items) w = restore_items ev pm items w1"
      "unwritable w1 = unwritable w" by blast
    have "FailedRestore f \<in> set (stdout (restore_items ev pm items w1))"
      using Cons.IH[OF mem Cons.prems(2,3)] Cons.prems(4) w1(2) by simp
    then show ?thesis using w1(1) by simp
  qed
qed

text \<open>
  C5. When the decision is \<open>REJECT\<close> and the retry counter has reached the ceiling of 3,
  \<open>router\<close> ends the graph (the repair proposer is not run again) after the rollback: every
  file of the backup whose recorded path can be written has its stored content at that
  path afterwards, whether or not other files could be restored, and a file whose path
  cannot be written is reported as failed. The backup is a dictionary (its keys are
  distinct) and each recorded path ends in the file name it is recorded for, as the
  registry builds it.
\<close>

theorem rollback_at_ceiling:
  assumes "st_decision state = Some (JStr ''REJECT'')"
    and "retries_or_0 state \<ge> retry_ceiling"
    and "st_original_code_backup state = Some backup"
    and "st_original_code_path_map state = Some path_map"
    and "distinct (keys backup)"
    and "\<forall>f p. map_of path_map f = Some p \<longrightarrow> basename p = f"
  shows "fst (router ev state w) = END
         \<and> fst (snd (router ev state w)) = state
         \<and> (\<forall>(f, c) \<in> set backup. \<forall>p. map_of path_map f = Some p \<longrightarrow> p \<noteq> [] \<longrightarrow>
               (p \<notin> unwritable w \<longrightarrow> dirs w p = None \<longrightarrow>
                  map_option fst (disk (snd (snd (router ev state w))) p) = Some c)
               \<and> (p \<in> unwritable w \<longrightarrow>
                  FailedRestore f \<in> set (stdout (snd (snd (router ev state w))))))"
proof -
  have r: "router ev state w = (END, state, restore_items ev path_map backup w)"
    using assms(1-4) by (simp add: router_def restore_original_code_def)
  have inj: "\<forall>f g q. map_of path_map f = Some q \<and> map_of path_map g = Some q \<longrightarrow> f = g"
    using assms(6) by metis
  have d: "distinct (map fst backup)" using assms(5) by (simp add: keys_def)
  show ?thesis
    unfolding r
    using restore_items_restores[OF d inj] restore_items_reports
    by (auto simp del: restore_items.simps)
qed

theorem rollback_at_ceiling_witness:
  "st_decision ceiling_session = Some (JStr ''REJECT'')
   \<and> retries_or_0 ceiling_session \<ge> retry_ceiling
   \<and> fst (router sample_env ceiling_session locked_world) = END
   \<and> map_option fst (disk (snd (snd (router sample_env ceiling_session locked_world)))
                        ''/proj/Foo.java'') = Some foo_code
   \<and> FailedRestore ''Bar.java''
       \<in> set (stdout (snd (snd (router sample_env ceiling_session locked_world))))"
proof -
  let ?b = "[(''Bar.java'', ''class Bar {}''), (''Foo.java'', foo_code)]"
  let ?m = "[(''Bar.java'', ''/proj/Bar.java''), (''Foo.java'', ''/proj/Foo.java'')]"
  have h1: "st_decision ceiling_session = Some (JStr ''REJECT'')"
    and h2: "retries_or_0 ceiling_session \<ge> retry_ceiling"
    and h3: "st_original_code_backup ceiling_session = Some ?b"
    and h4: "st_original_code_path_map ceiling_session = Some ?m"
    by (simp_all add: ceiling_session_def fresh_session_def retries_or_0_def retry_ceiling_def)
  have h5: "distinct (keys ?b)" by (simp add: keys_def)
  have h6: "\<forall>f p. map_of ?m f = Some p \<longrightarrow> basename p = f"
    by (simp add: basename_def)
  note t = rollback_at_ceiling[OF h1 h2 h3 h4 h5 h6, of sample_env locked_world]
  have foo: "map_option fst (disk (snd (snd (router sample_env ceiling_session locked_world)))
                        ''/proj/Foo.java'') = Some foo_code"
    using t by (simp add: locked_world_def)
  have bar: "FailedRestore ''Bar.java''
       \<in> set (stdout (snd (snd (router sample_env ceiling_session locked_world))))"
    using t by (simp add: locked_world_def)
  show ?thesis using h1 h2 t foo bar by simp
qed

text \<open>The state after a repair attempt, with the retry counter at \<open>r\<close>.\<close>

text \<open>An oracle whose aggregation call fails at every attempt, with well-formed replies in
  the five analyses before.\<close>

section \<open>Properties of the orchestration\<close>

lemma rejected_state:
  "testing_node rejecting (tested_session r)
   = Inr ((tested_session r)
            \<lparr>st_decision := Some (JStr ''REJECT''),
             st_detailed_report := Some ''The fix does not compile.'',
             st_recommendations := Some (JList []),
             st_failure_reasons := Some (JList [JStr ''missing import'']),
             st_retries := Some (r + 1),
             st_test_failure_reason :=
               Some (''REJECTED. Reasons: missing import'' @ [CHR 0x0A, CHR 0x0A]
                     @ ''--- FULL VALIDATION REPORT ---'' @ [CHR 0x0A]
                     @ ''The fix does not compile.'')\<rparr>)"
  by (simp add: testing_node_def tested_session_def fresh_session_def rejecting_def
        rejection_def truthy_def join_reasons_def retries_or_0_def Let_def)

lemma rejection_counted_once:
  assumes "testing_node validate state = Inr state'"
    and "st_decision state' = Some (JStr ''REJECT'')"
  shows "st_retries state' = Some (retries_or_0 state + 1)
         \<and> st_test_failure_reason state' \<noteq> None"
  using assms
  by (auto simp: testing_node_def Let_def review_state_def
           split: option.splits validation_outcome.splits sum.splits if_splits)

text \<open>Below the last value under the ceiling a rejected attempt goes back to the proposer,
  with the counter raised by one and the feedback in the state.\<close>

lemma rejection_routes_back:
  assumes "testing_node validate state = Inr state'"
    and "st_decision state' = Some (JStr ''REJECT'')"
    and "retries_or_0 state + 1 < retry_ceiling"
  shows "validate_and_route ev validate state w = Inr (fix_code, state', w)"
  using assms rejection_counted_once[OF assms(1,2)]
  by (simp add: validate_and_route_def router_def retries_or_0_def)

text \<open>
  C2 fails on the code at the last value below the ceiling. When validation rejects the
  fix and the retry counter is one below the ceiling (2, the ceiling being 3),
  \<open>testing_node\<close> raises the counter to the ceiling before \<open>router\<close> compares it, so
  \<open>router\<close> restores the backup and ends the graph: the run does not go back to the
  proposer although the counter was below the ceiling when the fix was rejected.
\<close>

theorem rejection_below_ceiling_ends_run:
  assumes "testing_node validate state = Inr state'"
    and "st_decision state' = Some (JStr ''REJECT'')"
    and "retries_or_0 state = retry_ceiling - 1"
  shows "retries_or_0 state < retry_ceiling
         \<and> st_retries state' = Some retry_ceiling
         \<and> validate_and_route ev validate state w
             = Inr (END, state', restore_original_code ev state' w)"
  using assms rejection_counted_once[OF assms(1,2)]
  by (simp add: validate_and_route_def router_def retries_or_0_def)

theorem rejection_below_ceiling_ends_run_witness:
  "retries_or_0 (tested_session 2) = retry_ceiling - 1
   \<and> retries_or_0 (tested_session 2) < retry_ceiling
   \<and> \<not> isl (testing_node rejecting (tested_session 2))
   \<and> st_decision (projr (testing_node rejecting (tested_session 2))) = Some (JStr ''REJECT'')
   \<and> fst (projr (validate_and_route sample_env rejecting (tested_session 2)
                     foo_world_patched)) = END
   \<and> st_retries (fst (snd (projr (validate_and_route sample_env rejecting (tested_session 2)
                                      foo_world_patched)))) = Some 3
   \<and> map_option fst
         (disk (snd (snd (projr (validate_and_route sample_env rejecting (tested_session 2)
                                   foo_world_patched)))) ''/proj/Foo.java'') = Some foo_code"
proof -
  define state' where "state' = projr (testing_node rejecting (tested_session 2))"
  have t: "testing_node rejecting (tested_session 2) = Inr state'"
    and d: "st_decision state' = Some (JStr ''REJECT'')"
    by (simp_all add: state'_def rejected_state)
  have b: "st_original_code_backup state' = Some [(''Foo.java'', foo_code)]"
    and m: "st_original_code_path_map state' = Some [(''Foo.java'', ''/proj/Foo.java'')]"
    unfolding state'_def rejected_state
    by (simp_all add: tested_session_def fresh_session_def)
  have r: "retries_or_0 (tested_session 2) = retry_ceiling - 1"
    by (simp add: retries_or_0_def tested_session_def retry_ceiling_def)
  have w: "map_option fst (disk (restore_original_code sample_env state' foo_world_patched)
                             ''/proj/Foo.java'') = Some foo_code"
    by (simp add: restore_original_code_def b m write_file_def foo_world_patched_def
          foo_world_def print_def)
  from rejection_below_ceiling_ends_run[OF t d r, of sample_env foo_world_patched]
  show ?thesis using t d r w by (simp add: retry_ceiling_def)
qed

lemma stage_node_object: "\<exists>d. stage_node L k shown = JObj d"
  by (auto simp: stage_node_def Let_def split: json.splits option.splits)

lemma invoke_all_failed:
  assumes "tries 0 = Failure m0" "tries (Suc 0) = Failure m1" "tries (Suc (Suc 0)) = Failure m2"
  shows "\<exists>d. invoke_with_json_response tries = JObj d \<and> map_of d ''error'' \<noteq> None
             \<and> set (map fst d) \<subseteq> {''error'', ''raw_response''}"
proof -
  have three: "max_retries = Suc (Suc (Suc 0))" by (simp add: max_retries_def)
  have lt: "(0::nat) < max_retries - 1" "Suc 0 < max_retries - 1"
    "\<not> Suc (Suc 0) < max_retries - 1"
    by (simp_all add: max_retries_def)
  have "invoke_with_json_response tries = invoke_loop tries (Suc (Suc (Suc 0))) 0"
    by (simp add: invoke_with_json_response_def three)
  then show ?thesis
    using assms lt by (auto simp: Let_def)
qed

text \<open>A stage of which every attempt fails stores an object with the key \<open>error\<close>; nothing is
  raised (the result is a value).\<close>

lemma failed_stage_has_error_key:
  assumes "attempts L k 0 = Failure m0" "attempts L k 1 = Failure m1"
    "attempts L k 2 = Failure m2"
  shows "\<exists>d. stage_node L k shown = JObj d \<and> map_of d ''error'' \<noteq> None"
proof -
  have a: "attempts L k (Suc 0) = Failure m1" "attempts L k (Suc (Suc 0)) = Failure m2"
    using assms(2,3) by (simp_all add: numeral_2_eq_2)
  from invoke_all_failed[OF assms(1) a] obtain d where
    d: "invoke_with_json_response (attempts L k) = JObj d" "map_of d ''error'' \<noteq> None"
    by blast
  show ?thesis
    using d by (cases "shown d") (auto simp: stage_node_def Let_def)
qed

text \<open>When every attempt of the aggregation call fails, the decision is \<open>NEEDS_REVIEW\<close> with
  no failure reasons, whatever the five analyses were.\<close>

lemma failed_aggregation_needs_review:
  assumes "init_failure L = None"
    and "attempts L 5 0 = Failure m0" "attempts L 5 1 = Failure m1"
      "attempts L 5 2 = Failure m2"
  shows "r_decision (validate_code_with_llm L) = JStr ''NEEDS_REVIEW''
         \<and> r_failure_reasons (validate_code_with_llm L) = JList []
         \<and> r_recommendations (validate_code_with_llm L) = JList []"
proof -
  have s: "attempts L 5 (Suc 0) = Failure m1" "attempts L 5 (Suc (Suc 0)) = Failure m2"
    using assms(3,4) by (simp_all add: numeral_2_eq_2)
  from invoke_all_failed[OF assms(2) s] obtain d where
    d: "invoke_with_json_response (attempts L 5) = JObj d"
       "set (map fst d) \<subseteq> {''error'', ''raw_response''}"
    by blast
  have absent: "\<And>k. k \<noteq> ''error'' \<Longrightarrow> k \<noteq> ''raw_response'' \<Longrightarrow> map_of d k = None"
    using d(2) by (auto simp: map_of_eq_None_iff)
  obtain a where a: "analyze_error_node L = JObj a"
    unfolding analyze_error_node_def using stage_node_object[of L 0 "\<lambda>a. None"] by blast
  obtain b where b: "logic_validation_node L = JObj b"
    unfolding logic_validation_node_def using stage_node_object[of L 2 logic_shown] by blast
  obtain c where c: "semantic_validation_node L = JObj c"
    unfolding semantic_validation_node_def using stage_node_object[of L 3 "\<lambda>a. None"]
    by blast
  obtain e where e: "security_validation_node L = JObj e"
    unfolding security_validation_node_def using stage_node_object[of L 4 security_shown]
    by blast
  show ?thesis
    by (simp add: validate_code_with_llm_def assms(1) final_decision_node_def d(1) decide_def
          a b c e dict_get_def absent py_add_def stage_field_def sliceable_def
          check_listing_def truthy_def Let_def)
qed

text \<open>
  C9 fails on the code. The oracle fails at each of the three attempts of the aggregation
  call. \<open>invoke_with_json_response\<close> turns the failure into an object with the key \<open>error\<close>
  and raises nothing, so the \<open>except\<close> branch of \<open>final_decision_node\<close> is not taken: the
  object has no key \<open>decision\<close>, the decision defaults to \<open>NEEDS_REVIEW\<close> and the failure
  reasons are empty.
\<close>

theorem aggregation_failure_is_not_rejected:
  "attempts failing_llm 5 0 = Failure ''503 service unavailable''
   \<and> attempts failing_llm 5 1 = Failure ''503 service unavailable''
   \<and> attempts failing_llm 5 2 = Failure ''503 service unavailable''
   \<and> invoke_with_json_response (attempts failing_llm 5)
       = JObj [(''error'', JStr ''LLM call failed: 503 service unavailable'')]
   \<and> r_decision (validate_code_with_llm failing_llm) = JStr ''NEEDS_REVIEW''
   \<and> r_failure_reasons (validate_code_with_llm failing_llm) = JList []"
proof -
  have f: "attempts failing_llm 5 0 = Failure ''503 service unavailable''"
    "attempts failing_llm 5 1 = Failure ''503 service unavailable''"
    "attempts failing_llm 5 2 = Failure ''503 service unavailable''"
    and i: "init_failure failing_llm = None"
    by (simp_all add: failing_llm_def)
  have f': "attempts failing_llm 5 (Suc 0) = Failure ''503 service unavailable''"
    "attempts failing_llm 5 (Suc (Suc 0)) = Failure ''503 service unavailable''"
    by (simp_all add: failing_llm_def)
  have lt: "(0::nat) < max_retries - 1" "Suc 0 < max_retries - 1"
    "\<not> Suc (Suc 0) < max_retries - 1"
    by (simp_all add: max_retries_def)
  have "invoke_with_json_response (attempts failing_llm 5)
        = invoke_loop (attempts failing_llm 5) (Suc (Suc (Suc 0))) 0"
    by (simp add: invoke_with_json_response_def max_retries_def numeral_3_eq_3)
  then have inv: "invoke_with_json_response (attempts failing_llm 5)
       = JObj [(''error'', JStr ''LLM call failed: 503 service unavailable'')]"
    by (simp add: f(1) f' max_retries_def lower_def lower_char_def Let_def)
  show ?thesis
    using f inv failed_aggregation_needs_review[OF i f] by simp
qed

section \<open>Properties of a repeated patch application\<close>
























end
